theory Spec2Isabelle
  imports Main "HOL-Library.Sublist" "HOL-Library.Multiset"
begin

section \<open>The persistent store (db/database.py)\<close>

text \<open>
  The four tables of \<^verbatim>\<open>create_tables\<close>. \<^verbatim>\<open>users.user_id\<close> and
  \<^verbatim>\<open>auth_keys.auth_key\<close> are UNIQUE, so both tables are maps from that column to the
  rest of the row. \<^verbatim>\<open>storage\<close> is the list of its rows in insertion order, with the
  SERIAL sequence that numbers them. Timestamps are integers.
\<close>

type_synonym user_id = int
type_synonym timestamp = int

record user_row =
  username :: "string option"
  registered_at :: timestamp
  is_authorized :: bool

record storage_row =
  row_id :: int
  row_user_id :: user_id
  file_path :: string
  original_filename :: string
  file_type :: string
  uploaded_at :: timestamp

text \<open>
  Outgoing texts. The source's replies are Ukrainian sentences; each constructor stands
  for one of them and carries the values the sentence interpolates.
\<close>

datatype reply =
    TxtUnauthorized                 \<comment> \<open>"this function is for authorized users only"\<close>
  | TxtInternalAuthError            \<comment> \<open>"Internal error during authorization check."\<close>
  | TxtWelcomeBack "string option"  \<comment> \<open>/start, registered and authorized\<close>
  | TxtHelloNotAuthorized "string option" \<comment> \<open>/start, registered, not authorized, with AUTH_PROMPT\<close>
  | TxtHelloRegistered "string option"    \<comment> \<open>/start, newly registered, with AUTH_PROMPT\<close>
  | TxtRegistrationError            \<comment> \<open>/start, add_user raised\<close>
  | TxtRegisterFirst                \<comment> \<open>/auth before /start\<close>
  | TxtAlreadyAuthorized "string option"
  | TxtNoKeyGiven
  | TxtInvalidKey                   \<comment> \<open>"invalid authorization key"\<close>
  | TxtKeyUsed                      \<comment> \<open>"this authorization key has already been used"\<close>
  | TxtAuthOk                       \<comment> \<open>"authorization successful"\<close>
  | TxtCongratulations "string option" reply \<comment> \<open>greeting put in front of the success message\<close>
  | TxtAuthInternalError
  | TxtEnterAuthCommand
  | TxtYouAreAuthorized
  | TxtUseStartFirst
  | TxtLoggedOut
  | TxtChooseFileType
  | TxtNoFilesYet
  | TxtYourFiles
  | TxtFileInfo int "string option" timestamp bool string
      \<comment> \<open>\<^verbatim>\<open>_format_file_info\<close>: id, uploader, upload time, is it a photo, original filename\<close>
  | TxtSendDocument "string set"    \<comment> \<open>"please upload a document (allowed extensions). Or /cancel"\<close>
  | TxtSendPhoto
  | TxtUnknownFileType
  | TxtFileDeleted
  | TxtMarkDeleted                  \<comment> \<open>the listing entry with "deleted" appended\<close>
  | TxtForbiddenDelete              \<comment> \<open>"cannot delete another user's file"\<close>
  | TxtNotFoundOrDeleted
  | TxtMarkDeleteError
  | TxtWrongFormat string "string set" \<comment> \<open>"wrong format (ext). Allowed: ... Send another file or /cancel"\<close>
  | TxtCouldNotSaveFile             \<comment> \<open>"could not save the file. Try again or /cancel"\<close>
  | TxtDocumentUploaded string
  | TxtDocumentDbError              \<comment> \<open>"file uploaded, but the record could not be saved; contact the administrator"\<close>
  | TxtCouldNotSavePhoto            \<comment> \<open>"could not save the photo. Try again or /cancel"\<close>
  | TxtPhotoUploaded
  | TxtPhotoDbError
  | TxtExpectDocument "string set"  \<comment> \<open>"a document file is expected. Send a file or cancel: /cancel"\<close>
  | TxtExpectPhoto                  \<comment> \<open>"a photo is expected. Send a photo or cancel: /cancel"\<close>
  | TxtPressButton                  \<comment> \<open>"press one of the buttons above or cancel: /cancel"\<close>
  | TxtNothingToCancel
  | TxtCancelled

text \<open>
  Modelled from the spec: the module \<^verbatim>\<open>states\<close> (class \<^verbatim>\<open>FileUpload\<close>) is imported by the
  handlers but is not among the sources. Its three states are the ones the handlers name;
  \<open>Idle\<close> is the framework's "no state" (\<^verbatim>\<open>None\<close>), which \<^verbatim>\<open>state.clear()\<close> sets.
\<close>

datatype fsm_state = Idle | choosing_file_type | awaiting_document | awaiting_photo

text \<open>The \<^verbatim>\<open>action_description\<close> column of \<^verbatim>\<open>logs\<close>, one constructor for each call site of \<^verbatim>\<open>log_user_action\<close>.\<close>

datatype audit =
    AuRegistered | AuRegistrationFailed | AuStartNewUser
  | AuAuthNotRegistered | AuAuthAlreadyAuthorized | AuAuthNoKey
  | AuAuthSuccessful string | AuAuthFailed reply | AuAuthInternalError
  | AuPressedAuthorize | AuLoggedOut | AuPressedProcessFile | AuPressedListFiles
  | AuChoseFileType string
  | AuDeleteSuccessful int | AuDeleteDenied int
  | AuInvalidFormat string | AuCouldNotSaveFile | AuDocumentUploaded string | AuDocumentDbFailed string
  | AuCouldNotSavePhoto string | AuPhotoUploaded string | AuPhotoDbFailed string
  | AuWrongDocumentInput | AuWrongPhotoInput | AuTextInsteadOfButton
  | AuCancelled fsm_state

record database =
  users :: "user_id \<rightharpoonup> user_row"
  auth_keys :: "string \<rightharpoonup> bool"     \<comment> \<open>\<^verbatim>\<open>auth_key\<close> to \<^verbatim>\<open>is_used\<close>\<close>
  storage :: "storage_row list"
  storage_seq :: int                         \<comment> \<open>the next value of \<^verbatim>\<open>storage.id\<close>\<close>
  logs :: "(user_id \<times> audit) list"

datatype db_error = IntegrityConstraintViolationError | OtherDatabaseError

subsection \<open>Redeeming a key\<close>

text \<open>
  The statements of \<^verbatim>\<open>authorize_user_with_key\<close> run on one connection inside
  \<^verbatim>\<open>connection.transaction()\<close>. Any of them can raise (the connection is lost, the
  statement times out); \<open>fault\<close> names the statement that does: 0 the SELECT, 1 the UPDATE
  of the key, 2 the UPDATE of the user, 3 the COMMIT. An UPDATE whose WHERE clause matches
  no row changes nothing and is not an error.
\<close>

definition check_auth_key :: "nat option \<Rightarrow> string \<Rightarrow> database \<Rightarrow> db_error + bool option" where
  "check_auth_key fault auth_key d =
     (if fault = Some 0 then Inl OtherDatabaseError else Inr (auth_keys d auth_key))"

definition mark_key_used :: "nat option \<Rightarrow> string \<Rightarrow> database \<Rightarrow> db_error + database" where
  "mark_key_used fault auth_key d =
     (if fault = Some 1 then Inl OtherDatabaseError
      else Inr (d\<lparr>auth_keys := (auth_keys d)(auth_key := map_option (\<lambda>_. True) (auth_keys d auth_key))\<rparr>))"

definition set_user_authorized_in_transaction :: "nat option \<Rightarrow> user_id \<Rightarrow> database \<Rightarrow> db_error + database" where
  "set_user_authorized_in_transaction fault uid d =
     (if fault = Some 2 then Inl OtherDatabaseError
      else Inr (d\<lparr>users := (users d)(uid := map_option (\<lambda>u. u\<lparr>is_authorized := True\<rparr>) (users d uid))\<rparr>))"

text \<open>The body of the \<^verbatim>\<open>async with connection.transaction()\<close> block.\<close>

definition authorize_body :: "nat option \<Rightarrow> user_id \<Rightarrow> string \<Rightarrow> database \<Rightarrow> db_error + ((bool \<times> reply) \<times> database)" where
  "authorize_body fault uid auth_key d =
     (case check_auth_key fault auth_key d of
        Inl e \<Rightarrow> Inl e
      | Inr None \<Rightarrow> Inr ((False, TxtInvalidKey), d)
      | Inr (Some used) \<Rightarrow>
          if used then Inr ((False, TxtKeyUsed), d)
          else (case mark_key_used fault auth_key d of
                  Inl e \<Rightarrow> Inl e
                | Inr d1 \<Rightarrow>
                    (case set_user_authorized_in_transaction fault uid d1 of
                       Inl e \<Rightarrow> Inl e
                     | Inr d2 \<Rightarrow> Inr ((True, TxtAuthOk), d2))))"

text \<open>
  A transaction commits what its body wrote when the body returns, and rolls back to the
  state it started from when the body or the commit raises.
\<close>

definition transaction :: "nat option \<Rightarrow> (database \<Rightarrow> db_error + ('a \<times> database)) \<Rightarrow> database \<Rightarrow> (db_error + 'a) \<times> database" where
  "transaction fault body d =
     (case body d of
        Inl e \<Rightarrow> (Inl e, d)
      | Inr (r, d') \<Rightarrow> if fault = Some 3 then (Inl OtherDatabaseError, d) else (Inr r, d'))"

definition authorize_user_with_key :: "nat option \<Rightarrow> user_id \<Rightarrow> string \<Rightarrow> database \<Rightarrow> (db_error + (bool \<times> reply)) \<times> database" where
  "authorize_user_with_key fault uid auth_key d = transaction fault (authorize_body fault uid auth_key) d"

text \<open>The state after both writes of a redemption: the key's row is used, the user's row is authorized.\<close>

definition redeemed :: "user_id \<Rightarrow> string \<Rightarrow> database \<Rightarrow> database" where
  "redeemed uid auth_key d =
     d\<lparr>auth_keys := (auth_keys d)(auth_key \<mapsto> True),
       users := (users d)(uid := map_option (\<lambda>u. u\<lparr>is_authorized := True\<rparr>) (users d uid))\<rparr>"

subsection \<open>Users, the ledger of files and the audit log\<close>

definition get_user :: "database \<Rightarrow> user_id \<Rightarrow> user_row option" where
  "get_user d uid = users d uid"

text \<open>
  \<^verbatim>\<open>storage.user_id\<close> references \<^verbatim>\<open>users\<close> and \<^verbatim>\<open>file_type\<close> has a CHECK constraint: an
  insert that breaks either raises IntegrityConstraintViolationError, after the sequence
  has given out its value. A value longer than its VARCHAR column raises a data error.
  (Lengths are counted in bytes here and in characters by the database; they agree on
  ASCII names.)
\<close>

definition insert_storage :: "timestamp \<Rightarrow> user_id \<Rightarrow> string \<Rightarrow> string \<Rightarrow> string \<Rightarrow> database \<Rightarrow> db_error + (int \<times> database)" where
  "insert_storage t uid path name ftype d =
     (if 1024 < length path \<or> 255 < length name \<or> 50 < length ftype then Inl OtherDatabaseError
      else if uid \<notin> dom (users d) \<or> ftype \<notin> {''photo'', ''document''}
        then Inl IntegrityConstraintViolationError
      else Inr (storage_seq d,
                d\<lparr>storage := storage d @
                     [\<lparr>row_id = storage_seq d, row_user_id = uid, file_path = path,
                       original_filename = name, file_type = ftype, uploaded_at = t\<rparr>],
                   storage_seq := storage_seq d + 1\<rparr>))"

text \<open>
  \<^verbatim>\<open>get_user_files\<close>: the rows of the user joined with the user's row, ORDER BY
  \<^verbatim>\<open>uploaded_at\<close> DESC. SQL leaves the order of rows with equal times open; the stable
  sort keeps them in insertion order.
\<close>

definition get_user_files :: "database \<Rightarrow> user_id \<Rightarrow> (storage_row \<times> string option) list" where
  "get_user_files d uid =
     (case users d uid of
        None \<Rightarrow> []
      | Some u \<Rightarrow> map (\<lambda>r. (r, username u))
                    (sort_key (\<lambda>r. - uploaded_at r) (filter (\<lambda>r. row_user_id r = uid) (storage d))))"

definition get_file_record :: "database \<Rightarrow> int \<Rightarrow> storage_row option" where
  "get_file_record d fid = find (\<lambda>r. row_id r = fid) (storage d)"

section \<open>The process: store, disk, sessions and what it sends\<close>

datatype level = ERROR | CRITICAL

datatype keyboard =
    main_menu_authorized | main_menu_unauthorized | file_type_keyboard
  | create_delete_button int

text \<open>
  What a handler does to the outside: a message sent to a chat (\<^verbatim>\<open>bot.send_message\<close>,
  \<^verbatim>\<open>message.answer\<close>, \<^verbatim>\<open>message.reply\<close>) with its reply markup, the answer to a callback
  query with its \<^verbatim>\<open>show_alert\<close> flag, an edit or removal of the message a callback came
  from, a logger record of level ERROR or above (the INFO and WARNING records are left
  out), and an exception that leaves the handler. A send is taken to succeed: the
  branches for TelegramAPIError are not modelled.
\<close>

datatype effect =
    SendMessage int reply "keyboard option"
  | AnswerCallback "reply option" bool
  | EditText reply
  | DeleteMessage
  | Log level string
  | Raise string

text \<open>
  The session table is the framework's memory storage; in a private chat its key is the
  user. \<open>out\<close> collects the effects in the order they happen.
\<close>

record world =
  db :: database
  disk :: "string set"
  fsm :: "user_id \<Rightarrow> fsm_state"
  out :: "effect list"

text \<open>
  What the surroundings decide during one event: the clock of the database (NOW()), the
  text of \<^verbatim>\<open>datetime.now().strftime("%Y%m%d_%H%M%S")\<close>, which of the fallible calls
  raise, and whether a download that raises had already created its destination file.
\<close>

record env =
  now :: timestamp
  strftime_now :: string
  mkdir_raises :: bool
  download_raises :: bool
  download_leaves_file :: bool
  insert_raises :: bool
  add_user_raises :: bool
  unlink_raises :: bool
  txn_fault :: "nat option"

subsection \<open>Events\<close>

record tg_user =
  tg_id :: user_id
  tg_username :: "string option"

record document =
  doc_file_id :: string
  doc_file_unique_id :: string
  doc_file_name :: "string option"

record photo_size =
  photo_file_id :: string
  photo_file_unique_id :: string

text \<open>
  The filters of the router read a message through \<^verbatim>\<open>CommandStart()\<close>, \<^verbatim>\<open>Command("auth")\<close>,
  \<^verbatim>\<open>Command("cancel")\<close> and through equality of its text with one of the four menu labels;
  \<open>command\<close> and \<open>button\<close> hold what they find.
\<close>

datatype command = CommandStart | CommandAuth "string option" | CommandCancel

datatype button = BtnAuthorize | BtnLogout | BtnProcessFile | BtnListFiles

record message =
  from_user :: "tg_user option"
  chat_id :: int
  command :: "command option"
  button :: "button option"
  document :: "document option"
  photo :: "photo_size list"

datatype callback_data = FileTypeCallbackData string | DeleteFileCallbackData int | OtherCallbackData

record origin_message =
  origin_chat_id :: int
  origin_has_text :: bool
  origin_says_deleted :: bool

record callback_query =
  cq_from_user :: "tg_user option"
  cq_message :: "origin_message option"
  cq_data :: callback_data

datatype event = Message message | CallbackQuery callback_query

subsection \<open>Small steps\<close>

definition emit :: "effect \<Rightarrow> world \<Rightarrow> world" where
  "emit x w = w\<lparr>out := out w @ [x]\<rparr>"

definition send :: "int \<Rightarrow> reply \<Rightarrow> keyboard option \<Rightarrow> world \<Rightarrow> world" where
  "send chat t markup w = emit (SendMessage chat t markup) w"

definition set_state :: "user_id \<Rightarrow> fsm_state \<Rightarrow> world \<Rightarrow> world" where
  "set_state uid s w = w\<lparr>fsm := (fsm w)(uid := s)\<rparr>"

definition clear :: "user_id \<Rightarrow> world \<Rightarrow> world" where
  "clear uid w = set_state uid Idle w"

text \<open>
  \<^verbatim>\<open>log_user_action\<close>: the insert fails when the user has no row (the foreign key of
  \<^verbatim>\<open>logs\<close>); the failure is logged and swallowed.
\<close>

definition log_user_action :: "user_id \<Rightarrow> audit \<Rightarrow> world \<Rightarrow> world" where
  "log_user_action uid a w =
     (if uid \<in> dom (users (db w)) then w\<lparr>db := (db w)\<lparr>logs := logs (db w) @ [(uid, a)]\<rparr>\<rparr>
      else emit (Log ERROR ''Failed to log user action to DB'') w)"

definition add_user :: "env \<Rightarrow> user_id \<Rightarrow> string option \<Rightarrow> world \<Rightarrow> db_error + world" where
  "add_user e uid name w =
     (if add_user_raises e then Inl OtherDatabaseError
      else if uid \<in> dom (users (db w)) then Inl IntegrityConstraintViolationError
      else Inr (w\<lparr>db := (db w)\<lparr>users := (users (db w))
                  (uid \<mapsto> \<lparr>username = name, registered_at = now e, is_authorized = False\<rparr>)\<rparr>\<rparr>))"

definition set_user_authorization_status :: "user_id \<Rightarrow> bool \<Rightarrow> world \<Rightarrow> world" where
  "set_user_authorization_status uid flag w =
     w\<lparr>db := (db w)\<lparr>users := (users (db w))
          (uid := map_option (\<lambda>u. u\<lparr>is_authorized := flag\<rparr>) (users (db w) uid))\<rparr>\<rparr>"

text \<open>
  \<^verbatim>\<open>add_file_record\<close> returns \<open>None\<close> when it returns and the exception when it raises. The
  integrity violation is caught, logged and not raised again; any other exception is
  logged and raised.
\<close>

definition add_file_record :: "env \<Rightarrow> user_id \<Rightarrow> string \<Rightarrow> string \<Rightarrow> string \<Rightarrow> world \<Rightarrow> db_error option \<times> world" where
  "add_file_record e uid path name ftype w =
     (if insert_raises e
        then (Some OtherDatabaseError, emit (Log ERROR ''Unexpected error adding file record'') w)
      else (case insert_storage (now e) uid path name ftype (db w) of
              Inr (fid, d') \<Rightarrow> (None, w\<lparr>db := d'\<rparr>)
            | Inl IntegrityConstraintViolationError \<Rightarrow>
                (None, emit (Log ERROR ''Failed to add file record. User might not exist?'')
                         (w\<lparr>db := (db w)\<lparr>storage_seq := storage_seq (db w) + 1\<rparr>\<rparr>))
            | Inl OtherDatabaseError \<Rightarrow>
                (Some OtherDatabaseError, emit (Log ERROR ''Unexpected error adding file record'') w)))"

text \<open>
  \<^verbatim>\<open>delete_file_record\<close>: look the row up, delete it, return its path. The id the DELETE
  returns is tested for truth, so the id 0 counts as a failed delete.
\<close>

definition delete_file_record :: "int \<Rightarrow> world \<Rightarrow> string option \<times> world" where
  "delete_file_record fid w =
     (case get_file_record (db w) fid of
        None \<Rightarrow> (None, w)
      | Some file_record \<Rightarrow>
          (let w' = w\<lparr>db := (db w)\<lparr>storage := filter (\<lambda>r. row_id r \<noteq> fid) (storage (db w))\<rparr>\<rparr>
           in if fid \<noteq> 0 then (Some (file_path file_record), w')
              else (None, emit (Log ERROR ''Failed to delete file record despite finding it'') w')))"

subsection \<open>Paths and file names\<close>

text \<open>\<^verbatim>\<open>str(user_id)\<close>: the decimal digits of an integer.\<close>

definition digit_char :: "nat \<Rightarrow> char" where
  "digit_char n = ''0123456789'' ! n"

fun str_nat :: "nat \<Rightarrow> string" where
  "str_nat n = (if n < 10 then [digit_char n] else str_nat (n div 10) @ [digit_char (n mod 10)])"

definition str_int :: "int \<Rightarrow> string" where
  "str_int i = (if i < 0 then CHR ''-'' # str_nat (nat (- i)) else str_nat (nat i))"

text \<open>
  \<^verbatim>\<open>Path(s).suffix\<close> for a POSIX path: the path is cut at the slashes, empty components
  and \<^verbatim>\<open>.\<close> are dropped, the last component is the name; the suffix starts at the last
  dot of the name, unless that dot is the first or the last character.
\<close>

fun split_on :: "char \<Rightarrow> string \<Rightarrow> string list" where
  "split_on sep [] = [[]]"
| "split_on sep (c # cs) =
     (if c = sep then [] # split_on sep cs
      else (case split_on sep cs of [] \<Rightarrow> [[c]] | p # ps \<Rightarrow> (c # p) # ps))"

definition path_name :: "string \<Rightarrow> string" where
  "path_name s =
     (case filter (\<lambda>c. c \<noteq> [] \<and> c \<noteq> ''.'') (split_on CHR ''/'' s) of
        [] \<Rightarrow> []
      | c # cs \<Rightarrow> last (c # cs))"

fun rfind :: "char \<Rightarrow> string \<Rightarrow> nat option" where
  "rfind c [] = None"
| "rfind c (x # xs) =
     (case rfind c xs of Some i \<Rightarrow> Some (Suc i) | None \<Rightarrow> if x = c then Some 0 else None)"

definition path_suffix :: "string \<Rightarrow> string" where
  "path_suffix s =
     (let name = path_name s
      in case rfind CHR ''.'' name of
           None \<Rightarrow> []
         | Some i \<Rightarrow> if 0 < i \<and> Suc i < length name then drop i name else [])"

text \<open>
  \<^verbatim>\<open>str.lower\<close> on the ASCII letters; other bytes stay. (A string is its UTF-8 bytes. No
  character outside ASCII has a lower case made of the letters of the allowed extensions,
  so the test against the allow-list comes out as in the source.)
\<close>

definition lower_char :: "char \<Rightarrow> char" where
  "lower_char c =
     (case map_of (zip ''ABCDEFGHIJKLMNOPQRSTUVWXYZ'' ''abcdefghijklmnopqrstuvwxyz'') c of
        None \<Rightarrow> c
      | Some l \<Rightarrow> l)"

definition lower :: "string \<Rightarrow> string" where
  "lower s = map lower_char s"

definition ALLOWED_DOC_EXTENSIONS :: "string set" where
  "ALLOWED_DOC_EXTENSIONS = {''.pdf'', ''.doc'', ''.docx'', ''.xlsx''}"

definition temp_path :: "user_id \<Rightarrow> string \<Rightarrow> string" where
  "temp_path uid desired_filename = ''temp/'' @ str_int uid @ ''/'' @ desired_filename"

text \<open>
  \<^verbatim>\<open>_save_uploaded_file\<close>: make \<^verbatim>\<open>temp/<user_id>\<close>, download the blob to
  \<^verbatim>\<open>temp/<user_id>/<desired_filename>\<close>; \<open>None\<close> when either step raises. Nothing removes
  what a download that raises has written: when it had opened its destination, an empty
  or truncated file stays there.
\<close>

definition save_uploaded_file :: "env \<Rightarrow> string \<Rightarrow> user_id \<Rightarrow> string \<Rightarrow> world \<Rightarrow> string option \<times> world" where
  "save_uploaded_file e file_id uid desired_filename w =
     (if mkdir_raises e then (None, emit (Log ERROR ''Could not create directory'') w)
      else if download_raises e
        then (None, emit (Log ERROR ''Failed to download file'')
                      (if download_leaves_file e
                       then w\<lparr>disk := insert (temp_path uid desired_filename) (disk w)\<rparr> else w))
      else (Some (temp_path uid desired_filename),
            w\<lparr>disk := insert (temp_path uid desired_filename) (disk w)\<rparr>))"

definition delete_file_from_disk :: "env \<Rightarrow> string \<Rightarrow> world \<Rightarrow> world" where
  "delete_file_from_disk e file_path_str w =
     (if file_path_str = [] then w
      else if file_path_str \<in> disk w
        then (if unlink_raises e then emit (Log ERROR ''Error deleting file from disk'') w
              else w\<lparr>disk := disk w - {file_path_str}\<rparr>)
      else w)"

section \<open>The handlers (handlers/user_handlers.py)\<close>

subsection \<open>The authorization gate\<close>

definition event_user :: "event \<Rightarrow> tg_user option" where
  "event_user ev = (case ev of Message m \<Rightarrow> from_user m | CallbackQuery q \<Rightarrow> cq_from_user q)"

definition event_chat :: "event \<Rightarrow> int option" where
  "event_chat ev =
     (case ev of Message m \<Rightarrow> Some (chat_id m)
               | CallbackQuery q \<Rightarrow> map_option origin_chat_id (cq_message q))"

definition is_callback :: "event \<Rightarrow> bool" where
  "is_callback ev = (case ev of Message m \<Rightarrow> False | CallbackQuery q \<Rightarrow> True)"

text \<open>
  The else branch of the wrapper: the message goes to the chat when the event has one
  (\<^verbatim>\<open>if chat_id:\<close> is false for a missing chat and for the id 0), and a callback query is
  answered with an alert.
\<close>

definition deny :: "event \<Rightarrow> world \<Rightarrow> world" where
  "deny ev w =
     (let w1 = (case event_chat ev of
                  None \<Rightarrow> w
                | Some c \<Rightarrow> if c \<noteq> 0 then send c TxtUnauthorized (Some main_menu_unauthorized) w else w)
      in if is_callback ev then emit (AnswerCallback (Some TxtUnauthorized) True) w1 else w1)"

text \<open>
  \<^verbatim>\<open>require_authorization(func)\<close>: \<open>func\<close> is the wrapped call
  \<^verbatim>\<open>func(event, *args, **kwargs)\<close>. The dispatcher calls a handler with those of its
  keyword arguments (\<^verbatim>\<open>pool\<close>, \<^verbatim>\<open>bot\<close>, \<^verbatim>\<open>state\<close>, \<^verbatim>\<open>callback_data\<close>, ...) that the
  signature of the handler names, and \<^verbatim>\<open>functools.wraps\<close> gives the wrapper the signature
  of the function it wraps: \<open>kwargs\<close> holds the names of the keyword parameters of that
  function, and \<^verbatim>\<open>kwargs.get\<close> finds nothing for any other name. The first guard returns
  when the user, the pool or the bot is missing.
\<close>

definition guard_failed :: "event \<Rightarrow> world \<Rightarrow> world" where
  "guard_failed ev w =
     (let w1 = emit (Log CRITICAL ''Could not get user, pool, or bot in require_authorization'') w
      in if is_callback ev then emit (AnswerCallback (Some TxtInternalAuthError) True) w1 else w1)"

definition require_authorization :: "string list \<Rightarrow> (world \<Rightarrow> world) \<Rightarrow> event \<Rightarrow> world \<Rightarrow> world" where
  "require_authorization kwargs func ev w =
     (case event_user ev of
        None \<Rightarrow> guard_failed ev w
      | Some user \<Rightarrow>
          if ''pool'' \<in> set kwargs \<and> ''bot'' \<in> set kwargs
          then (case get_user (db w) (tg_id user) of
                  None \<Rightarrow> deny ev w
                | Some user_record \<Rightarrow> if is_authorized user_record then func w else deny ev w)
          else guard_failed ev w)"

text \<open>
  The bodies read \<^verbatim>\<open>message.from_user.id\<close>; on a message without a sender that is an
  AttributeError, which leaves the handler.
\<close>

definition with_user :: "tg_user option \<Rightarrow> (tg_user \<Rightarrow> world \<Rightarrow> world) \<Rightarrow> world \<Rightarrow> world" where
  "with_user uo k w = (case uo of None \<Rightarrow> emit (Raise ''AttributeError'') w | Some u \<Rightarrow> k u w)"

subsection \<open>Registration and authorization\<close>

text \<open>
  \<^verbatim>\<open>cmd_start\<close>. The last audit entry is written only when the description contains
  neither "registered" nor "failed": that is the case for a new registration alone.
\<close>

definition cmd_start :: "env \<Rightarrow> message \<Rightarrow> world \<Rightarrow> world" where
  "cmd_start e m = with_user (from_user m) (\<lambda>u w.
     (case get_user (db w) (tg_id u) of
        Some user_record \<Rightarrow>
          if is_authorized user_record
          then send (chat_id m) (TxtWelcomeBack (username user_record)) (Some main_menu_authorized) w
          else send (chat_id m) (TxtHelloNotAuthorized (tg_username u)) (Some main_menu_unauthorized) w
      | None \<Rightarrow>
          (case add_user e (tg_id u) (tg_username u) w of
             Inr w1 \<Rightarrow>
               log_user_action (tg_id u) AuStartNewUser
                 (send (chat_id m) (TxtHelloRegistered (tg_username u)) (Some main_menu_unauthorized)
                   (log_user_action (tg_id u) AuRegistered w1))
           | Inl err \<Rightarrow>
               send (chat_id m) TxtRegistrationError (Some main_menu_unauthorized)
                 (log_user_action (tg_id u) AuRegistrationFailed
                   (emit (Log ERROR ''Failed to register user'') w)))))"

definition command_args :: "message \<Rightarrow> string option" where
  "command_args m = (case command m of Some (CommandAuth a) \<Rightarrow> a | _ \<Rightarrow> None)"

definition cmd_auth :: "env \<Rightarrow> message \<Rightarrow> world \<Rightarrow> world" where
  "cmd_auth e m = with_user (from_user m) (\<lambda>u w.
     (case get_user (db w) (tg_id u) of
        None \<Rightarrow>
          log_user_action (tg_id u) AuAuthNotRegistered
            (send (chat_id m) TxtRegisterFirst (Some main_menu_unauthorized) w)
      | Some user_record \<Rightarrow>
          if is_authorized user_record
          then log_user_action (tg_id u) AuAuthAlreadyAuthorized
                 (send (chat_id m) (TxtAlreadyAuthorized (tg_username u)) (Some main_menu_authorized) w)
          else (case command_args m of
                  None \<Rightarrow> log_user_action (tg_id u) AuAuthNoKey (send (chat_id m) TxtNoKeyGiven None w)
                | Some auth_key \<Rightarrow>
                    if auth_key = [] then log_user_action (tg_id u) AuAuthNoKey (send (chat_id m) TxtNoKeyGiven None w)
                    else (case authorize_user_with_key (txn_fault e) (tg_id u) auth_key (db w) of
                            (Inr (success, response_message), d') \<Rightarrow>
                              if success
                              then send (chat_id m) (TxtCongratulations (tg_username u) response_message)
                                     (Some main_menu_authorized)
                                     (log_user_action (tg_id u) (AuAuthSuccessful auth_key) (w\<lparr>db := d'\<rparr>))
                              else send (chat_id m) response_message (Some main_menu_unauthorized)
                                     (log_user_action (tg_id u) (AuAuthFailed response_message) (w\<lparr>db := d'\<rparr>))
                          | (Inl err, d') \<Rightarrow>
                              log_user_action (tg_id u) AuAuthInternalError
                                (send (chat_id m) TxtAuthInternalError None
                                  (emit (Log ERROR ''Error during authorization process'') (w\<lparr>db := d'\<rparr>)))))))"

definition handle_auth_button :: "env \<Rightarrow> message \<Rightarrow> world \<Rightarrow> world" where
  "handle_auth_button e m = with_user (from_user m) (\<lambda>u w.
     (let w1 = log_user_action (tg_id u) AuPressedAuthorize w
      in case get_user (db w1) (tg_id u) of
           Some user_record \<Rightarrow>
             if \<not> is_authorized user_record then send (chat_id m) TxtEnterAuthCommand None w1
             else send (chat_id m) TxtYouAreAuthorized (Some main_menu_authorized) w1
         | None \<Rightarrow> send (chat_id m) TxtUseStartFirst None w1))"

subsection \<open>The gated operations\<close>

text \<open>
  Each gated handler is the wrapper around its body, with the keyword parameters its
  \<^verbatim>\<open>async def\<close> line names (the first parameter is the event). Only the two upload
  handlers name \<^verbatim>\<open>bot\<close>.
\<close>

definition handle_logout_body :: "env \<Rightarrow> message \<Rightarrow> world \<Rightarrow> world" where
  "handle_logout_body e m = with_user (from_user m) (\<lambda>u w.
     send (chat_id m) TxtLoggedOut (Some main_menu_unauthorized)
       (log_user_action (tg_id u) AuLoggedOut
         (set_user_authorization_status (tg_id u) False w)))"

definition handle_logout :: "env \<Rightarrow> message \<Rightarrow> world \<Rightarrow> world" where
  "handle_logout e m =
     require_authorization [''pool''] (handle_logout_body e m) (Message m)"

definition handle_process_file_body :: "env \<Rightarrow> message \<Rightarrow> world \<Rightarrow> world" where
  "handle_process_file_body e m = with_user (from_user m) (\<lambda>u w.
     set_state (tg_id u) choosing_file_type
       (send (chat_id m) TxtChooseFileType (Some file_type_keyboard)
         (log_user_action (tg_id u) AuPressedProcessFile w)))"

definition handle_process_file :: "env \<Rightarrow> message \<Rightarrow> world \<Rightarrow> world" where
  "handle_process_file e m =
     require_authorization [''state'', ''pool''] (handle_process_file_body e m) (Message m)"

text \<open>\<^verbatim>\<open>_format_file_info\<close> with the delete button of the row: one message of the listing.\<close>

definition format_file_info :: "storage_row \<times> string option \<Rightarrow> reply" where
  "format_file_info file_record =
     TxtFileInfo (row_id (fst file_record))
       (case snd file_record of None \<Rightarrow> None | Some n \<Rightarrow> if n = [] then None else Some n)
       (uploaded_at (fst file_record))
       (file_type (fst file_record) = ''photo'')
       (original_filename (fst file_record))"

definition handle_list_files_body :: "env \<Rightarrow> message \<Rightarrow> world \<Rightarrow> world" where
  "handle_list_files_body e m = with_user (from_user m) (\<lambda>u w.
     (let w1 = log_user_action (tg_id u) AuPressedListFiles w;
          files = get_user_files (db w1) (tg_id u)
      in if files = [] then send (chat_id m) TxtNoFilesYet None w1
         else fold (\<lambda>file_record. send (chat_id m) (format_file_info file_record)
                                       (Some (create_delete_button (row_id (fst file_record)))))
                files (send (chat_id m) TxtYourFiles None w1)))"

definition handle_list_files :: "env \<Rightarrow> message \<Rightarrow> world \<Rightarrow> world" where
  "handle_list_files e m =
     require_authorization [''pool''] (handle_list_files_body e m) (Message m)"

text \<open>
  \<^verbatim>\<open>handle_file_type_choice\<close>. \<^verbatim>\<open>query.message.edit_text\<close> comes before the state is set, so
  a query without its message raises before the session moves.
\<close>

definition callback_type :: "callback_query \<Rightarrow> string" where
  "callback_type q = (case cq_data q of FileTypeCallbackData t \<Rightarrow> t | _ \<Rightarrow> [])"

definition handle_file_type_choice_body :: "env \<Rightarrow> callback_query \<Rightarrow> world \<Rightarrow> world" where
  "handle_file_type_choice_body e q = with_user (cq_from_user q) (\<lambda>u w.
     (let w1 = emit (AnswerCallback None False)
                 (log_user_action (tg_id u) (AuChoseFileType (callback_type q)) w)
      in case cq_message q of
           None \<Rightarrow> emit (Raise ''AttributeError'') w1
         | Some origin \<Rightarrow>
             if callback_type q = ''document''
             then set_state (tg_id u) awaiting_document (emit (EditText (TxtSendDocument ALLOWED_DOC_EXTENSIONS)) w1)
             else if callback_type q = ''photo''
             then set_state (tg_id u) awaiting_photo (emit (EditText TxtSendPhoto) w1)
             else clear (tg_id u) (emit (EditText TxtUnknownFileType) w1)))"

definition handle_file_type_choice :: "env \<Rightarrow> callback_query \<Rightarrow> world \<Rightarrow> world" where
  "handle_file_type_choice e q =
     require_authorization [''callback_data'', ''state'', ''pool''] (handle_file_type_choice_body e q) (CallbackQuery q)"

text \<open>
  \<^verbatim>\<open>handle_delete_file\<close> calls \<^verbatim>\<open>delete_file_record\<close> first. \<open>delete_done\<close> is the
  branch \<^verbatim>\<open>if file_path_to_delete:\<close>, \<open>delete_refused\<close> the else branch, where the row is
  read again and its owner compared with the requester.
\<close>

definition callback_file_id :: "callback_query \<Rightarrow> int" where
  "callback_file_id q = (case cq_data q of DeleteFileCallbackData i \<Rightarrow> i | _ \<Rightarrow> 0)"

definition delete_refused :: "callback_query \<Rightarrow> tg_user \<Rightarrow> world \<Rightarrow> world" where
  "delete_refused q u w =
     (let file_record = get_file_record (db w) (callback_file_id q)
      in if (case file_record of None \<Rightarrow> False | Some r \<Rightarrow> row_user_id r \<noteq> tg_id u)
         then log_user_action (tg_id u) (AuDeleteDenied (callback_file_id q))
                (emit (AnswerCallback (Some TxtForbiddenDelete) True) w)
         else (let w1 = emit (AnswerCallback (Some TxtNotFoundOrDeleted) True) w
               in case cq_message q of
                    None \<Rightarrow> w1
                  | Some origin \<Rightarrow>
                      if origin_has_text origin \<and> \<not> origin_says_deleted origin
                      then emit (EditText TxtMarkDeleteError) w1 else w1))"

definition delete_done :: "env \<Rightarrow> callback_query \<Rightarrow> tg_user \<Rightarrow> string \<Rightarrow> world \<Rightarrow> world" where
  "delete_done e q u file_path_to_delete w =
     (let w1 = log_user_action (tg_id u) (AuDeleteSuccessful (callback_file_id q))
                 (emit (AnswerCallback (Some TxtFileDeleted) False)
                   (delete_file_from_disk e file_path_to_delete w))
      in case cq_message q of
           None \<Rightarrow> w1
         | Some origin \<Rightarrow>
             if origin_has_text origin then emit (EditText TxtMarkDeleted) w1
             else emit DeleteMessage w1)"

definition handle_delete_file_body :: "env \<Rightarrow> callback_query \<Rightarrow> world \<Rightarrow> world" where
  "handle_delete_file_body e q = with_user (cq_from_user q) (\<lambda>u w.
     (case delete_file_record (callback_file_id q) w of
        (None, w1) \<Rightarrow> delete_refused q u w1
      | (Some file_path_to_delete, w1) \<Rightarrow>
          if file_path_to_delete \<noteq> [] then delete_done e q u file_path_to_delete w1
          else delete_refused q u w1))"

definition handle_delete_file :: "env \<Rightarrow> callback_query \<Rightarrow> world \<Rightarrow> world" where
  "handle_delete_file e q =
     require_authorization [''callback_data'', ''pool''] (handle_delete_file_body e q) (CallbackQuery q)"

subsection \<open>Uploads\<close>

definition original_name :: "document \<Rightarrow> string" where
  "original_name doc =
     (case doc_file_name doc of None \<Rightarrow> ''unknown_document''
                              | Some n \<Rightarrow> if n = [] then ''unknown_document'' else n)"

definition handle_document_upload_body :: "env \<Rightarrow> message \<Rightarrow> world \<Rightarrow> world" where
  "handle_document_upload_body e m = with_user (from_user m) (\<lambda>u w.
     (case document m of
        None \<Rightarrow> emit (Raise ''AttributeError'') w
      | Some doc \<Rightarrow>
          (let original_filename = original_name doc;
               file_extension = lower (path_suffix original_filename)
           in if file_extension \<notin> ALLOWED_DOC_EXTENSIONS
              then log_user_action (tg_id u) (AuInvalidFormat file_extension)
                     (send (chat_id m) (TxtWrongFormat file_extension ALLOWED_DOC_EXTENSIONS) None w)
              else (case save_uploaded_file e (doc_file_id doc) (tg_id u)
                           (doc_file_unique_id doc @ file_extension) w of
                      (None, w1) \<Rightarrow>
                        log_user_action (tg_id u) AuCouldNotSaveFile
                          (send (chat_id m) TxtCouldNotSaveFile None w1)
                    | (Some saved_path, w1) \<Rightarrow>
                        (case add_file_record e (tg_id u) saved_path original_filename ''document'' w1 of
                           (None, w2) \<Rightarrow>
                             clear (tg_id u)
                               (log_user_action (tg_id u) (AuDocumentUploaded original_filename)
                                 (send (chat_id m) (TxtDocumentUploaded original_filename)
                                    (Some main_menu_authorized) w2))
                         | (Some db_error, w2) \<Rightarrow>
                             clear (tg_id u)
                               (log_user_action (tg_id u) (AuDocumentDbFailed original_filename)
                                 (send (chat_id m) TxtDocumentDbError None
                                   (emit (Log ERROR ''Failed to add DB record for document'') w2))))))))"

definition handle_document_upload :: "env \<Rightarrow> message \<Rightarrow> world \<Rightarrow> world" where
  "handle_document_upload e m =
     require_authorization [''state'', ''pool'', ''bot''] (handle_document_upload_body e m) (Message m)"

definition photo_save_filename :: "env \<Rightarrow> photo_size \<Rightarrow> string" where
  "photo_save_filename e p = ''photo_'' @ photo_file_unique_id p @ ''_'' @ strftime_now e @ ''.jpg''"

definition handle_photo_upload_body :: "env \<Rightarrow> message \<Rightarrow> world \<Rightarrow> world" where
  "handle_photo_upload_body e m w =
     (case photo m of
        [] \<Rightarrow> emit (Raise ''TypeError'') w
      | p # ps \<Rightarrow>
          with_user (from_user m) (\<lambda>u w.
            (let save_filename = photo_save_filename e (last (p # ps))
             in case save_uploaded_file e (photo_file_id (last (p # ps))) (tg_id u) save_filename w of
                  (None, w1) \<Rightarrow>
                    log_user_action (tg_id u) (AuCouldNotSavePhoto save_filename)
                      (send (chat_id m) TxtCouldNotSavePhoto None w1)
                | (Some saved_path, w1) \<Rightarrow>
                    (case add_file_record e (tg_id u) saved_path save_filename ''photo'' w1 of
                       (None, w2) \<Rightarrow>
                         clear (tg_id u)
                           (log_user_action (tg_id u) (AuPhotoUploaded save_filename)
                             (send (chat_id m) TxtPhotoUploaded (Some main_menu_authorized) w2))
                     | (Some db_error, w2) \<Rightarrow>
                         clear (tg_id u)
                           (log_user_action (tg_id u) (AuPhotoDbFailed save_filename)
                             (send (chat_id m) TxtPhotoDbError None
                               (emit (Log ERROR ''Failed to add DB record for photo'') w2)))))) w)"

definition handle_photo_upload :: "env \<Rightarrow> message \<Rightarrow> world \<Rightarrow> world" where
  "handle_photo_upload e m =
     require_authorization [''state'', ''pool'', ''bot''] (handle_photo_upload_body e m) (Message m)"

subsection \<open>Wrong input and cancelling\<close>

definition handle_wrong_document_input_body :: "env \<Rightarrow> message \<Rightarrow> world \<Rightarrow> world" where
  "handle_wrong_document_input_body e m = with_user (from_user m) (\<lambda>u w.
     send (chat_id m) (TxtExpectDocument ALLOWED_DOC_EXTENSIONS) None
       (log_user_action (tg_id u) AuWrongDocumentInput w))"

definition handle_wrong_document_input :: "env \<Rightarrow> message \<Rightarrow> world \<Rightarrow> world" where
  "handle_wrong_document_input e m =
     require_authorization [''pool''] (handle_wrong_document_input_body e m) (Message m)"

definition handle_wrong_photo_input_body :: "env \<Rightarrow> message \<Rightarrow> world \<Rightarrow> world" where
  "handle_wrong_photo_input_body e m = with_user (from_user m) (\<lambda>u w.
     send (chat_id m) TxtExpectPhoto None (log_user_action (tg_id u) AuWrongPhotoInput w))"

definition handle_wrong_photo_input :: "env \<Rightarrow> message \<Rightarrow> world \<Rightarrow> world" where
  "handle_wrong_photo_input e m =
     require_authorization [''pool''] (handle_wrong_photo_input_body e m) (Message m)"

definition handle_text_instead_of_callback_body :: "env \<Rightarrow> message \<Rightarrow> world \<Rightarrow> world" where
  "handle_text_instead_of_callback_body e m = with_user (from_user m) (\<lambda>u w.
     send (chat_id m) TxtPressButton None (log_user_action (tg_id u) AuTextInsteadOfButton w))"

definition handle_text_instead_of_callback :: "env \<Rightarrow> message \<Rightarrow> world \<Rightarrow> world" where
  "handle_text_instead_of_callback e m =
     require_authorization [''pool''] (handle_text_instead_of_callback_body e m) (Message m)"

definition cancel_upload_command :: "env \<Rightarrow> message \<Rightarrow> world \<Rightarrow> world" where
  "cancel_upload_command e m = with_user (from_user m) (\<lambda>u w.
     (let current_state = fsm w (tg_id u)
      in if current_state = Idle then send (chat_id m) TxtNothingToCancel (Some main_menu_authorized) w
         else send (chat_id m) TxtCancelled (Some main_menu_authorized)
                (clear (tg_id u) (log_user_action (tg_id u) (AuCancelled current_state) w))))"

section \<open>The router\<close>

text \<open>
  A router keeps its handlers in the order of registration, which is the order of the
  decorators in the file, and an event goes to the first handler all of whose filters
  accept it; no later handler sees it. There is one list for messages and one for
  callback queries. A filter sees the state of the sender's session.
\<close>

fun trigger :: "((fsm_state \<Rightarrow> 'ev \<Rightarrow> bool) \<times> (env \<Rightarrow> 'ev \<Rightarrow> world \<Rightarrow> world)) list \<Rightarrow> fsm_state \<Rightarrow> env \<Rightarrow> 'ev \<Rightarrow> world \<Rightarrow> world" where
  "trigger [] st e ev w = w"
| "trigger ((accepts, handler) # hs) st e ev w =
     (if accepts st ev then handler e ev w else trigger hs st e ev w)"

definition message_handlers :: "((fsm_state \<Rightarrow> message \<Rightarrow> bool) \<times> (env \<Rightarrow> message \<Rightarrow> world \<Rightarrow> world)) list" where
  "message_handlers =
     [(\<lambda>st m. command m = Some CommandStart, cmd_start),
      (\<lambda>st m. (case command m of Some (CommandAuth a) \<Rightarrow> True | _ \<Rightarrow> False), cmd_auth),
      (\<lambda>st m. button m = Some BtnAuthorize, handle_auth_button),
      (\<lambda>st m. button m = Some BtnLogout, handle_logout),
      (\<lambda>st m. button m = Some BtnProcessFile, handle_process_file),
      (\<lambda>st m. button m = Some BtnListFiles, handle_list_files),
      (\<lambda>st m. st = awaiting_document \<and> document m \<noteq> None, handle_document_upload),
      (\<lambda>st m. st = awaiting_photo \<and> photo m \<noteq> [], handle_photo_upload),
      (\<lambda>st m. st = awaiting_document, handle_wrong_document_input),
      (\<lambda>st m. st = awaiting_photo, handle_wrong_photo_input),
      (\<lambda>st m. st = choosing_file_type, handle_text_instead_of_callback),
      (\<lambda>st m. command m = Some CommandCancel \<and> st \<noteq> Idle, cancel_upload_command)]"

definition callback_query_handlers :: "((fsm_state \<Rightarrow> callback_query \<Rightarrow> bool) \<times> (env \<Rightarrow> callback_query \<Rightarrow> world \<Rightarrow> world)) list" where
  "callback_query_handlers =
     [(\<lambda>st q. (case cq_data q of FileTypeCallbackData t \<Rightarrow> True | _ \<Rightarrow> False) \<and> st = choosing_file_type,
         handle_file_type_choice),
      (\<lambda>st q. (case cq_data q of DeleteFileCallbackData i \<Rightarrow> True | _ \<Rightarrow> False), handle_delete_file)]"

text \<open>The state the filters see: the session of the sender, no state when the event has no sender.\<close>

definition current_state :: "world \<Rightarrow> event \<Rightarrow> fsm_state" where
  "current_state w ev = (case event_user ev of None \<Rightarrow> Idle | Some u \<Rightarrow> fsm w (tg_id u))"

definition feed_update :: "env \<Rightarrow> event \<Rightarrow> world \<Rightarrow> world" where
  "feed_update e ev w =
     (case ev of
        Message m \<Rightarrow> trigger message_handlers (current_state w ev) e m w
      | CallbackQuery q \<Rightarrow> trigger callback_query_handlers (current_state w ev) e q w)"

text \<open>A run of the bot: the events of the polling loop, each with what its surroundings decide.\<close>

fun run :: "(env \<times> event) list \<Rightarrow> world \<Rightarrow> world" where
  "run [] w = w"
| "run ((e, ev) # rest) w = run rest (feed_update e ev w)"

text \<open>The store after \<^verbatim>\<open>create_tables\<close> on an empty database, nothing on disk, no session, nothing sent.\<close>

definition initial_world :: world where
  "initial_world =
     \<lparr>db = \<lparr>users = Map.empty,
            auth_keys = [''key123'' \<mapsto> False, ''secretkey'' \<mapsto> False, ''auth777'' \<mapsto> False],
            storage = [], storage_seq = 1, logs = []\<rparr>,
      disk = {}, fsm = (\<lambda>u. Idle), out = []\<rparr>"

section \<open>Notions of the specification\<close>

text \<open>A name that ends, without regard to case, in one of the allowed extensions.\<close>

definition ends_with_allowed :: "string \<Rightarrow> bool" where
  "ends_with_allowed name =
     (suffix ''.pdf'' (lower name) \<or> suffix ''.doc'' (lower name) \<or>
      suffix ''.docx'' (lower name) \<or> suffix ''.xlsx'' (lower name))"

section \<open>Example states\<close>

text \<open>Surroundings in which nothing fails.\<close>

definition calm :: env where
  "calm = \<lparr>now = 200, strftime_now = ''20240101_120000'', mkdir_raises = False,
           download_raises = False, download_leaves_file = False,
           insert_raises = False, add_user_raises = False,
           unlink_raises = False, txn_fault = None\<rparr>"

text \<open>A registered user who has not redeemed a key; of the three keys one is already used.\<close>

definition seed_db :: database where
  "seed_db = \<lparr>users = [7 \<mapsto> \<lparr>username = Some ''ann'', registered_at = 1, is_authorized = False\<rparr>],
              auth_keys = [''key123'' \<mapsto> False, ''secretkey'' \<mapsto> False, ''auth777'' \<mapsto> True],
              storage = [], storage_seq = 1, logs = []\<rparr>"

text \<open>Two authorized users; the only file belongs to user 10.\<close>

definition ex_shared_world :: world where
  "ex_shared_world =
     \<lparr>db = \<lparr>users = [10 \<mapsto> \<lparr>username = Some ''olga'', registered_at = 1, is_authorized = True\<rparr>,
                     20 \<mapsto> \<lparr>username = Some ''petro'', registered_at = 2, is_authorized = True\<rparr>],
            auth_keys = Map.empty,
            storage = [\<lparr>row_id = 1, row_user_id = 10, file_path = ''temp/10/AgAD.pdf'',
                        original_filename = ''report.pdf'', file_type = ''document'', uploaded_at = 100\<rparr>],
            storage_seq = 2, logs = []\<rparr>,
      disk = {''temp/10/AgAD.pdf''}, fsm = (\<lambda>u. Idle), out = []\<rparr>"

text \<open>User 20 presses a delete button that carries the id of that file.\<close>

definition ex_delete_query :: callback_query where
  "ex_delete_query =
     \<lparr>cq_from_user = Some \<lparr>tg_id = 20, tg_username = Some ''petro''\<rparr>,
      cq_message = Some \<lparr>origin_chat_id = 20, origin_has_text = True, origin_says_deleted = False\<rparr>,
      cq_data = DeleteFileCallbackData 1\<rparr>"

text \<open>User 7, authorized, waits for a document; a document and a photo from that user.\<close>

definition ex_document_message :: message where
  "ex_document_message =
     \<lparr>from_user = Some \<lparr>tg_id = 7, tg_username = Some ''ann''\<rparr>, chat_id = 7,
      command = None, button = None,
      document = Some \<lparr>doc_file_id = ''BQAC'', doc_file_unique_id = ''AgAD'', doc_file_name = Some ''report.pdf''\<rparr>,
      photo = []\<rparr>"

definition ex_awaiting_world :: world where
  "ex_awaiting_world =
     \<lparr>db = \<lparr>users = [7 \<mapsto> \<lparr>username = Some ''ann'', registered_at = 1, is_authorized = True\<rparr>],
            auth_keys = Map.empty, storage = [], storage_seq = 1, logs = []\<rparr>,
      disk = {}, fsm = (\<lambda>u. Idle)(7 := awaiting_document), out = []\<rparr>"

text \<open>The same, after the row of user 7 has been removed from \<^verbatim>\<open>users\<close>.\<close>

definition ex_user_gone_world :: world where
  "ex_user_gone_world = ex_awaiting_world\<lparr>db := (db ex_awaiting_world)\<lparr>users := Map.empty\<rparr>\<rparr>"

definition ex_photo_message :: message where
  "ex_photo_message =
     \<lparr>from_user = Some \<lparr>tg_id = 7, tg_username = Some ''ann''\<rparr>, chat_id = 7,
      command = None, button = None, document = None,
      photo = [\<lparr>photo_file_id = ''AgAC-s'', photo_file_unique_id = ''AQAD-s''\<rparr>,
               \<lparr>photo_file_id = ''AgAC-x'', photo_file_unique_id = ''AQAD-x''\<rparr>]\<rparr>"

text \<open>
  User 7 registered and not authorized; a press of that user on a delete button; a press
  on the menu button that lists the files.
\<close>

definition ex_unregistered_world :: world where
  "ex_unregistered_world = \<lparr>db = seed_db, disk = {}, fsm = (\<lambda>u. Idle), out = []\<rparr>"

definition ex_unauthorized_press :: callback_query where
  "ex_unauthorized_press =
     \<lparr>cq_from_user = Some \<lparr>tg_id = 7, tg_username = Some ''ann''\<rparr>,
      cq_message = Some \<lparr>origin_chat_id = 7, origin_has_text = True, origin_says_deleted = False\<rparr>,
      cq_data = DeleteFileCallbackData 1\<rparr>"

definition ex_list_message :: message where
  "ex_list_message =
     \<lparr>from_user = Some \<lparr>tg_id = 7, tg_username = Some ''ann''\<rparr>, chat_id = 7,
      command = None, button = Some BtnListFiles, document = None, photo = []\<rparr>"

text \<open>User 7, authorized, with one photo stored at time 100, waits for a document.\<close>

definition ex_library_world :: world where
  "ex_library_world =
     \<lparr>db = \<lparr>users = [7 \<mapsto> \<lparr>username = Some ''ann'', registered_at = 1, is_authorized = True\<rparr>],
            auth_keys = Map.empty,
            storage = [\<lparr>row_id = 1, row_user_id = 7, file_path = ''temp/7/photo_AQAD_20231231_090000.jpg'',
                        original_filename = ''photo_AQAD_20231231_090000.jpg'', file_type = ''photo'',
                        uploaded_at = 100\<rparr>],
            storage_seq = 2, logs = []\<rparr>,
      disk = {''temp/7/photo_AQAD_20231231_090000.jpg''},
      fsm = (\<lambda>u. Idle)(7 := awaiting_document), out = []\<rparr>"

text \<open>From user 7: a plain text.\<close>

definition ex_text_message :: message where
  "ex_text_message =
     \<lparr>from_user = Some \<lparr>tg_id = 7, tg_username = Some ''ann''\<rparr>, chat_id = 7,
      command = None, button = None, document = None, photo = []\<rparr>"

text \<open>From user 7: a document whose name ends in a slash, and a document without a name.\<close>

definition ex_slash_message :: message where
  "ex_slash_message =
     ex_document_message\<lparr>document :=
       Some \<lparr>doc_file_id = ''BQAC'', doc_file_unique_id = ''AgAD'', doc_file_name = Some ''report.pdf/''\<rparr>\<rparr>"

definition ex_nameless_message :: message where
  "ex_nameless_message =
     ex_document_message\<lparr>document :=
       Some \<lparr>doc_file_id = ''BQAC'', doc_file_unique_id = ''AgAD'', doc_file_name = None\<rparr>\<rparr>"

text \<open>
  From user 7: a document with an extension that is not allowed and the command /start
  as its caption. Surroundings a while later than \<open>calm\<close>.
\<close>

definition ex_caption_start_message :: message where
  "ex_caption_start_message =
     ex_document_message
       \<lparr>command := Some CommandStart,
        document := Some \<lparr>doc_file_id = ''BQAC'', doc_file_unique_id = ''AgAD'',
                           doc_file_name = Some ''Report.TXT''\<rparr>\<rparr>"

definition later :: env where
  "later = calm\<lparr>now := 300\<rparr>"

section \<open>Redeeming a key\<close>

lemmas authorize_defs = authorize_user_with_key_def transaction_def authorize_body_def
  check_auth_key_def mark_key_used_def set_user_authorized_in_transaction_def

lemmas step_defs = feed_update_def current_state_def event_user_def event_chat_def is_callback_def
  callback_query_handlers_def message_handlers_def require_authorization_def deny_def get_user_def
  with_user_def emit_def send_def set_state_def clear_def log_user_action_def guard_failed_def

text \<open>
  Claim C1 says that for every user id a redemption of an unused key leaves the user's
  authorized flag true. The UPDATE of \<^verbatim>\<open>users\<close> acts on the row of the user id and is no
  error when there is none: for the id 99, which has no row, the key is marked used and
  ok=true is returned, and still no user 99 is authorized.
\<close>

theorem redeem_by_unregistered_user:
  "users seed_db 99 = None \<and> auth_keys seed_db ''key123'' = Some False \<and>
   fst (authorize_user_with_key None 99 ''key123'' seed_db) = Inr (True, TxtAuthOk) \<and>
   auth_keys (snd (authorize_user_with_key None 99 ''key123'' seed_db)) ''key123'' = Some True \<and>
   users (snd (authorize_user_with_key None 99 ''key123'' seed_db)) 99 = None"
  by (simp add: seed_db_def authorize_defs)

text \<open>
  Claim C1, amended. With no statement failing, \<^verbatim>\<open>authorize_user_with_key\<close> answers
  "invalid key" and changes nothing when the key has no row, answers "already used" and
  changes nothing when the row is used, and otherwise, for a user id that has a row,
  returns ok=true from a state in which the key's row is used and the user's row is
  authorized, with every other key, every other user, the ledger and the audit log as
  they were. Whatever statement of the transaction fails, the store afterwards is either
  the one before the call or the one with both writes, and it is the second exactly when
  ok=true is returned.
\<close>

theorem redeem_once_atomically:
  "(auth_keys d k = None \<longrightarrow>
      authorize_user_with_key None uid k d = (Inr (False, TxtInvalidKey), d)) \<and>
   (auth_keys d k = Some True \<longrightarrow>
      authorize_user_with_key None uid k d = (Inr (False, TxtKeyUsed), d)) \<and>
   (\<forall>u. auth_keys d k = Some False \<and> users d uid = Some u \<longrightarrow>
      fst (authorize_user_with_key None uid k d) = Inr (True, TxtAuthOk) \<and>
      auth_keys (snd (authorize_user_with_key None uid k d)) = (auth_keys d)(k \<mapsto> True) \<and>
      users (snd (authorize_user_with_key None uid k d)) =
        (users d)(uid \<mapsto> u\<lparr>is_authorized := True\<rparr>) \<and>
      storage (snd (authorize_user_with_key None uid k d)) = storage d \<and>
      logs (snd (authorize_user_with_key None uid k d)) = logs d) \<and>
   (\<forall>fault.
      (fst (authorize_user_with_key fault uid k d) = Inr (True, TxtAuthOk) \<and>
       snd (authorize_user_with_key fault uid k d) = redeemed uid k d \<and>
       auth_keys d k = Some False) \<or>
      (fst (authorize_user_with_key fault uid k d) \<noteq> Inr (True, TxtAuthOk) \<and>
       snd (authorize_user_with_key fault uid k d) = d))"
  by (auto simp add: authorize_defs redeemed_def split: option.splits)

theorem redeem_once_atomically_witness:
  "auth_keys seed_db ''key123'' = Some False \<and>
   fst (authorize_user_with_key None 7 ''key123'' seed_db) = Inr (True, TxtAuthOk) \<and>
   auth_keys (snd (authorize_user_with_key None 7 ''key123'' seed_db)) ''key123'' = Some True \<and>
   users (snd (authorize_user_with_key None 7 ''key123'' seed_db)) 7 =
     Some \<lparr>username = Some ''ann'', registered_at = 1, is_authorized = True\<rparr> \<and>
   auth_keys seed_db ''auth777'' = Some True \<and>
   authorize_user_with_key None 7 ''auth777'' seed_db = (Inr (False, TxtKeyUsed), seed_db) \<and>
   auth_keys seed_db ''nokey'' = None \<and>
   authorize_user_with_key None 7 ''nokey'' seed_db = (Inr (False, TxtInvalidKey), seed_db) \<and>
   fst (authorize_user_with_key (Some 2) 7 ''key123'' seed_db) \<noteq> Inr (True, TxtAuthOk) \<and>
   snd (authorize_user_with_key (Some 2) 7 ''key123'' seed_db) = seed_db"
  using redeem_once_atomically [of seed_db "''key123''" 7]
        redeem_once_atomically [of seed_db "''auth777''" 7]
        redeem_once_atomically [of seed_db "''nokey''" 7]
  by (simp add: seed_db_def authorize_defs)

section \<open>The authorization gate\<close>

lemmas gated_defs = handle_logout_def handle_process_file_def handle_list_files_def
  handle_document_upload_def handle_photo_upload_def handle_wrong_document_input_def
  handle_wrong_photo_input_def handle_text_instead_of_callback_def
  handle_file_type_choice_def handle_delete_file_def

text \<open>
  Claim C9 says that every gated operation looks the sender up in the registry and
  answers a sender who is not authorized with the unauthorized message and the
  unauthorized menu. The wrapper reads \<^verbatim>\<open>bot\<close> from its keyword arguments and returns when
  it is missing, before it reads the registry; only the two upload handlers name \<^verbatim>\<open>bot\<close>.
  User 7 is registered and not authorized. The press on the menu button that lists the
  files changes nothing and sends nothing: a CRITICAL record is all there is. The press
  on a delete button is answered with "Internal error". A document sent to the upload
  handler, which names \<^verbatim>\<open>bot\<close>, is answered as the claim says.
\<close>

theorem unauthorized_press_gets_no_reply:
  "users (db ex_unregistered_world) 7 =
     Some \<lparr>username = Some ''ann'', registered_at = 1, is_authorized = False\<rparr> \<and>
   feed_update calm (Message ex_list_message) ex_unregistered_world =
     ex_unregistered_world
       \<lparr>out := [Log CRITICAL ''Could not get user, pool, or bot in require_authorization'']\<rparr> \<and>
   feed_update calm (CallbackQuery ex_unauthorized_press) ex_unregistered_world =
     ex_unregistered_world
       \<lparr>out := [Log CRITICAL ''Could not get user, pool, or bot in require_authorization'',
                AnswerCallback (Some TxtInternalAuthError) True]\<rparr> \<and>
   handle_document_upload calm ex_document_message ex_unregistered_world =
     ex_unregistered_world\<lparr>out := [SendMessage 7 TxtUnauthorized (Some main_menu_unauthorized)]\<rparr>"
  by (simp add: step_defs gated_defs ex_unregistered_world_def seed_db_def ex_list_message_def
      ex_unauthorized_press_def ex_document_message_def calm_def)

section \<open>Deleting a file\<close>

text \<open>
  Claim C3 says that a user who does not own a file gets "forbidden" and the row stays.
  The body of the handler deletes the row before it looks at the owner: run for user 20
  on the file of user 10, it removes the row and the blob, tells user 20 "file deleted"
  and leaves the listing of user 10 empty. Through the router the body is not reached
  (the handler does not name \<^verbatim>\<open>bot\<close>, see claim C9): the press is answered with
  "Internal error", which is not "forbidden" either.
\<close>

theorem delete_by_other_user_deletes:
  "map row_user_id (storage (db ex_shared_world)) = [10] \<and>
   map_option tg_id (cq_from_user ex_delete_query) = Some 20 \<and>
   storage (db (handle_delete_file_body calm ex_delete_query ex_shared_world)) = [] \<and>
   disk (handle_delete_file_body calm ex_delete_query ex_shared_world) = {} \<and>
   out (handle_delete_file_body calm ex_delete_query ex_shared_world) =
     [AnswerCallback (Some TxtFileDeleted) False, EditText TxtMarkDeleted] \<and>
   get_user_files (db (handle_delete_file_body calm ex_delete_query ex_shared_world)) 10 = [] \<and>
   out (feed_update calm (CallbackQuery ex_delete_query) ex_shared_world) =
     [Log CRITICAL ''Could not get user, pool, or bot in require_authorization'',
      AnswerCallback (Some TxtInternalAuthError) True]"
  by (simp add: step_defs gated_defs calm_def ex_shared_world_def ex_delete_query_def
      handle_delete_file_body_def delete_file_record_def get_file_record_def
      callback_file_id_def delete_done_def delete_refused_def delete_file_from_disk_def
      get_user_files_def)

section \<open>Uploads\<close>

lemmas upload_defs = handle_document_upload_def handle_document_upload_body_def original_name_def
  save_uploaded_file_def add_file_record_def insert_storage_def temp_path_def
  handle_photo_upload_def handle_photo_upload_body_def photo_save_filename_def

lemmas eval_defs = Let_def str_int_def digit_char_def lower_def lower_char_def path_suffix_def path_name_def
  ALLOWED_DOC_EXTENSIONS_def

text \<open>
  Claim C4 says that a failed ledger insert, a referential violation included, is
  surfaced to the handler, which reports a failure. \<^verbatim>\<open>add_file_record\<close> raises again
  what it catches in \<^verbatim>\<open>except Exception\<close>, but not the integrity violation: when the row
  of user 7 is gone at the time of the insert, it logs the error and returns, and the
  handler tells the user that the document was uploaded. No row is written, the blob
  stays on disk.
\<close>

theorem integrity_violation_reported_as_success:
  "users (db ex_user_gone_world) 7 = None \<and>
   fst (add_file_record calm 7 ''temp/7/AgAD.pdf'' ''report.pdf'' ''document'' ex_user_gone_world) = None \<and>
   out (handle_document_upload_body calm ex_document_message ex_user_gone_world) =
     [Log ERROR ''Failed to add file record. User might not exist?'',
      SendMessage 7 (TxtDocumentUploaded ''report.pdf'') (Some main_menu_authorized),
      Log ERROR ''Failed to log user action to DB''] \<and>
   storage (db (handle_document_upload_body calm ex_document_message ex_user_gone_world)) = [] \<and>
   disk (handle_document_upload_body calm ex_document_message ex_user_gone_world) = {''temp/7/AgAD.pdf''}"
  by (simp add: step_defs upload_defs eval_defs calm_def ex_user_gone_world_def ex_awaiting_world_def
      ex_document_message_def)


text \<open>
  Claim C5 says that a failed blob write clears the session. Here the download fails for
  user 7 in state \<open>awaiting_document\<close>: the user is told that the file could not be
  saved and may try again or cancel, and the session is still \<open>awaiting_document\<close>.
\<close>

theorem failed_download_keeps_session:
  "fsm ex_awaiting_world 7 = awaiting_document \<and>
   fsm (feed_update (calm\<lparr>download_raises := True\<rparr>) (Message ex_document_message) ex_awaiting_world) 7
     = awaiting_document \<and>
   out (feed_update (calm\<lparr>download_raises := True\<rparr>) (Message ex_document_message) ex_awaiting_world) =
     [Log ERROR ''Failed to download file'', SendMessage 7 TxtCouldNotSaveFile None]"
  by (simp add: step_defs upload_defs eval_defs calm_def ex_awaiting_world_def ex_document_message_def)

text \<open>
  Claim C5, amended. For a document with an allowed extension and for a photo, from an
  authorized user: when the blob write fails (the directory cannot be made or the
  download raises), the user is told that the file could not be saved, no ledger row is
  written and no session changes, so the user can send the file again or cancel; when
  the blob write succeeds, the sender's session is cleared, whether the ledger insert
  then succeeds or not. After a failed blob write the disk is as before, but for the
  file at the generated path that a download may leave behind when it raises.
\<close>

theorem blob_failure_keeps_session:
  assumes "from_user m = Some u" and "users (db w) (tg_id u) = Some r" and "is_authorized r"
  shows "(document m = Some doc \<and> lower (path_suffix (original_name doc)) \<in> ALLOWED_DOC_EXTENSIONS \<longrightarrow>
          (if mkdir_raises e \<or> download_raises e
           then fsm (handle_document_upload e m w) = fsm w \<and>
                storage (db (handle_document_upload e m w)) = storage (db w) \<and>
                disk (handle_document_upload e m w) =
                  (if \<not> mkdir_raises e \<and> download_leaves_file e
                   then insert (''temp/'' @ str_int (tg_id u) @ ''/'' @ doc_file_unique_id doc @
                                lower (path_suffix (original_name doc))) (disk w)
                   else disk w) \<and>
                out (handle_document_upload e m w) =
                  out w @ [Log ERROR (if mkdir_raises e then ''Could not create directory''
                                      else ''Failed to download file''),
                           SendMessage (chat_id m) TxtCouldNotSaveFile None]
           else fsm (handle_document_upload e m w) = (fsm w)(tg_id u := Idle))) \<and>
         (photo m \<noteq> [] \<longrightarrow>
          (if mkdir_raises e \<or> download_raises e
           then fsm (handle_photo_upload e m w) = fsm w \<and>
                storage (db (handle_photo_upload e m w)) = storage (db w) \<and>
                disk (handle_photo_upload e m w) =
                  (if \<not> mkdir_raises e \<and> download_leaves_file e
                   then insert (''temp/'' @ str_int (tg_id u) @ ''/'' @ ''photo_'' @
                                photo_file_unique_id (last (photo m)) @ ''_'' @ strftime_now e @ ''.jpg'')
                          (disk w)
                   else disk w) \<and>
                out (handle_photo_upload e m w) =
                  out w @ [Log ERROR (if mkdir_raises e then ''Could not create directory''
                                      else ''Failed to download file''),
                           SendMessage (chat_id m) TxtCouldNotSavePhoto None]
           else fsm (handle_photo_upload e m w) = (fsm w)(tg_id u := Idle)))"
proof (intro conjI impI)
  assume "document m = Some doc \<and> lower (path_suffix (original_name doc)) \<in> ALLOWED_DOC_EXTENSIONS"
  with assms show "if mkdir_raises e \<or> download_raises e
           then fsm (handle_document_upload e m w) = fsm w \<and>
                storage (db (handle_document_upload e m w)) = storage (db w) \<and>
                disk (handle_document_upload e m w) =
                  (if \<not> mkdir_raises e \<and> download_leaves_file e
                   then insert (''temp/'' @ str_int (tg_id u) @ ''/'' @ doc_file_unique_id doc @
                                lower (path_suffix (original_name doc))) (disk w)
                   else disk w) \<and>
                out (handle_document_upload e m w) =
                  out w @ [Log ERROR (if mkdir_raises e then ''Could not create directory''
                                      else ''Failed to download file''),
                           SendMessage (chat_id m) TxtCouldNotSaveFile None]
           else fsm (handle_document_upload e m w) = (fsm w)(tg_id u := Idle)"
    by (auto simp add: handle_document_upload_def handle_document_upload_body_def
        require_authorization_def event_user_def get_user_def with_user_def Let_def
        save_uploaded_file_def add_file_record_def emit_def send_def set_state_def clear_def
        log_user_action_def temp_path_def photo_save_filename_def
        split: sum.splits prod.splits db_error.splits)
next
  assume "photo m \<noteq> []"
  with assms show "if mkdir_raises e \<or> download_raises e
           then fsm (handle_photo_upload e m w) = fsm w \<and>
                storage (db (handle_photo_upload e m w)) = storage (db w) \<and>
                disk (handle_photo_upload e m w) =
                  (if \<not> mkdir_raises e \<and> download_leaves_file e
                   then insert (''temp/'' @ str_int (tg_id u) @ ''/'' @ ''photo_'' @
                                photo_file_unique_id (last (photo m)) @ ''_'' @ strftime_now e @ ''.jpg'')
                          (disk w)
                   else disk w) \<and>
                out (handle_photo_upload e m w) =
                  out w @ [Log ERROR (if mkdir_raises e then ''Could not create directory''
                                      else ''Failed to download file''),
                           SendMessage (chat_id m) TxtCouldNotSavePhoto None]
           else fsm (handle_photo_upload e m w) = (fsm w)(tg_id u := Idle)"
    by (cases "photo m")
       (auto simp add: handle_photo_upload_def handle_photo_upload_body_def
        require_authorization_def event_user_def get_user_def with_user_def Let_def
        save_uploaded_file_def add_file_record_def emit_def send_def set_state_def clear_def
        log_user_action_def temp_path_def photo_save_filename_def
        split: sum.splits prod.splits db_error.splits)
qed

theorem blob_failure_keeps_session_witness:
  "from_user ex_document_message = Some \<lparr>tg_id = 7, tg_username = Some ''ann''\<rparr> \<and>
   users (db ex_awaiting_world) 7 = Some \<lparr>username = Some ''ann'', registered_at = 1, is_authorized = True\<rparr> \<and>
   document ex_document_message =
     Some \<lparr>doc_file_id = ''BQAC'', doc_file_unique_id = ''AgAD'', doc_file_name = Some ''report.pdf''\<rparr> \<and>
   lower (path_suffix ''report.pdf'') \<in> ALLOWED_DOC_EXTENSIONS \<and>
   fsm (handle_document_upload (calm\<lparr>download_raises := True\<rparr>) ex_document_message ex_awaiting_world) 7
     = awaiting_document \<and>
   disk (handle_document_upload (calm\<lparr>download_raises := True, download_leaves_file := True\<rparr>)
           ex_document_message ex_awaiting_world) = {''temp/7/AgAD.pdf''} \<and>
   fsm (handle_document_upload calm ex_document_message ex_awaiting_world) 7 = Idle \<and>
   photo ex_photo_message \<noteq> [] \<and>
   fsm (handle_photo_upload (calm\<lparr>mkdir_raises := True\<rparr>) ex_photo_message
          (ex_awaiting_world\<lparr>fsm := (\<lambda>u. awaiting_photo)\<rparr>)) 7 = awaiting_photo"
  using blob_failure_keeps_session
          [where m = ex_document_message and w = ex_awaiting_world
             and u = "\<lparr>tg_id = 7, tg_username = Some ''ann''\<rparr>"
             and r = "\<lparr>username = Some ''ann'', registered_at = 1, is_authorized = True\<rparr>"
             and e = "calm\<lparr>download_raises := True\<rparr>"
             and doc = "\<lparr>doc_file_id = ''BQAC'', doc_file_unique_id = ''AgAD'', doc_file_name = Some ''report.pdf''\<rparr>"]
  by (simp add: step_defs upload_defs eval_defs calm_def ex_awaiting_world_def ex_document_message_def
      ex_photo_message_def)

text \<open>
  Claim C8 says that every document that arrives in state \<open>awaiting_document\<close> with an
  extension outside the allow-list is answered with the set of allowed extensions. The
  command handlers are registered before the upload handler and read a caption as they
  read a text: a document \<^verbatim>\<open>Report.TXT\<close> with the caption /start goes to \<^verbatim>\<open>cmd_start\<close>,
  its extension is never looked at, and the answer is the greeting.
\<close>

theorem rejected_document_with_start_caption:
  "fsm ex_awaiting_world 7 = awaiting_document \<and>
   lower (path_suffix ''Report.TXT'') = ''.txt'' \<and> ''.txt'' \<notin> ALLOWED_DOC_EXTENSIONS \<and>
   feed_update calm (Message ex_caption_start_message) ex_awaiting_world =
     ex_awaiting_world
       \<lparr>out := [SendMessage 7 (TxtWelcomeBack (Some ''ann'')) (Some main_menu_authorized)]\<rparr>"
  by (simp add: step_defs cmd_start_def eval_defs calm_def ex_awaiting_world_def
      ex_caption_start_message_def ex_document_message_def)

text \<open>
  Claim C8, amended. A document that arrives in state \<open>awaiting_document\<close> with an
  extension outside the allow-list, and that no command or menu handler takes first
  (no command in its caption, no menu label as its text), changes no session, nothing on
  disk and nothing in the ledger or the registry, for every sender; an authorized sender
  is sent the rejected extension together with the set of allowed extensions, and
  nothing else.
\<close>

theorem rejected_extension_changes_nothing:
  assumes "from_user m = Some u" and "fsm w (tg_id u) = awaiting_document"
    and "command m = None" and "button m = None" and "document m = Some doc"
    and "lower (path_suffix (original_name doc)) \<notin> ALLOWED_DOC_EXTENSIONS"
  shows "fsm (feed_update e (Message m) w) = fsm w \<and>
         disk (feed_update e (Message m) w) = disk w \<and>
         storage (db (feed_update e (Message m) w)) = storage (db w) \<and>
         storage_seq (db (feed_update e (Message m) w)) = storage_seq (db w) \<and>
         users (db (feed_update e (Message m) w)) = users (db w) \<and>
         (\<forall>r. users (db w) (tg_id u) = Some r \<and> is_authorized r \<longrightarrow>
            out (feed_update e (Message m) w) =
              out w @ [SendMessage (chat_id m)
                         (TxtWrongFormat (lower (path_suffix (original_name doc))) ALLOWED_DOC_EXTENSIONS)
                         None])"
  using assms
  by (auto simp add: step_defs handle_document_upload_def handle_document_upload_body_def Let_def
      split: option.splits)

theorem rejected_extension_changes_nothing_witness:
  "from_user ex_document_message = Some \<lparr>tg_id = 7, tg_username = Some ''ann''\<rparr> \<and>
   fsm ex_awaiting_world 7 = awaiting_document \<and>
   command ex_document_message = None \<and> button ex_document_message = None \<and>
   lower (path_suffix ''Report.TXT'') = ''.txt'' \<and> ''.txt'' \<notin> ALLOWED_DOC_EXTENSIONS \<and>
   feed_update calm
     (Message (ex_document_message\<lparr>document := Some \<lparr>doc_file_id = ''BQAC'', doc_file_unique_id = ''AgAD'',
                                                        doc_file_name = Some ''Report.TXT''\<rparr>\<rparr>))
     ex_awaiting_world =
   ex_awaiting_world
     \<lparr>db := (db ex_awaiting_world)\<lparr>logs := [(7, AuInvalidFormat ''.txt'')]\<rparr>,
      out := [SendMessage 7 (TxtWrongFormat ''.txt'' ALLOWED_DOC_EXTENSIONS) None]\<rparr>"
  using rejected_extension_changes_nothing
          [where m = "ex_document_message\<lparr>document := Some \<lparr>doc_file_id = ''BQAC'', doc_file_unique_id = ''AgAD'',
                                                        doc_file_name = Some ''Report.TXT''\<rparr>\<rparr>"
             and w = ex_awaiting_world and u = "\<lparr>tg_id = 7, tg_username = Some ''ann''\<rparr>" and e = calm
             and doc = "\<lparr>doc_file_id = ''BQAC'', doc_file_unique_id = ''AgAD'', doc_file_name = Some ''Report.TXT''\<rparr>"]
  by (simp add: step_defs upload_defs eval_defs calm_def ex_awaiting_world_def ex_document_message_def)

section \<open>Listing files\<close>

lemma insort_key_least:
  "\<forall>y\<in>set xs. f x < f y \<Longrightarrow> foldr (insort_key f) xs [x] = x # foldr (insort_key f) xs []"
  by (induction xs) auto

lemma sort_key_snoc_least:
  "\<forall>y\<in>set xs. f x < f y \<Longrightarrow> sort_key f (xs @ [x]) = x # sort_key f xs"
  by (simp add: sort_key_def insort_key_least)

lemma newest_first_sorted:
  "sorted_wrt (\<lambda>a b. uploaded_at (fst b) \<le> uploaded_at (fst a)) (get_user_files d uid)"
proof (cases "users d uid")
  case None
  then show ?thesis by (simp add: get_user_files_def)
next
  case (Some u)
  have "sorted (map (\<lambda>r. - uploaded_at r)
          (sort_key (\<lambda>r. - uploaded_at r) (filter (\<lambda>r. row_user_id r = uid) (storage d))))"
    by (rule sorted_sort_key)
  then have "sorted_wrt (\<lambda>a b. uploaded_at b \<le> uploaded_at a)
          (sort_key (\<lambda>r. - uploaded_at r) (filter (\<lambda>r. row_user_id r = uid) (storage d)))"
    by (simp add: sorted_wrt_map)
  with Some show ?thesis by (simp add: get_user_files_def sorted_wrt_map)
qed

lemma get_user_files_rows:
  "users d uid = Some u \<Longrightarrow>
     mset (map fst (get_user_files d uid)) = mset (filter (\<lambda>r. row_user_id r = uid) (storage d)) \<and>
     (\<forall>x\<in>set (get_user_files d uid). snd x = username u)"
  by (auto simp add: get_user_files_def comp_def)

lemma fold_send:
  "fold (\<lambda>x. send c (f x) (g x)) xs w = w\<lparr>out := out w @ map (\<lambda>x. SendMessage c (f x) (g x)) xs\<rparr>"
  by (induction xs arbitrary: w) (simp_all add: send_def emit_def)

lemma get_user_files_logs: "get_user_files (d\<lparr>logs := l\<rparr>) uid = get_user_files d uid"
  by (cases "users d uid") (simp_all add: get_user_files_def)

lemma handle_list_files_body_effect:
  assumes "from_user m = Some usr" and "users (db w) (tg_id usr) = Some r"
  shows "handle_list_files_body e m w =
           w\<lparr>db := (db w)\<lparr>logs := logs (db w) @ [(tg_id usr, AuPressedListFiles)]\<rparr>,
             out := out w @
               (if get_user_files (db w) (tg_id usr) = []
                then [SendMessage (chat_id m) TxtNoFilesYet None]
                else SendMessage (chat_id m) TxtYourFiles None #
                     map (\<lambda>x. SendMessage (chat_id m) (format_file_info x)
                                  (Some (create_delete_button (row_id (fst x)))))
                       (get_user_files (db w) (tg_id usr)))\<rparr>"
  using assms
  by (simp add: handle_list_files_body_def with_user_def Let_def fold_send log_user_action_def
      send_def emit_def get_user_files_logs domI)

lemma path_suffix_Nil: "path_suffix [] = []"
  by (simp add: path_suffix_def path_name_def)

lemma allowed_not_Nil: "[] \<notin> ALLOWED_DOC_EXTENSIONS"
  by (simp add: ALLOWED_DOC_EXTENSIONS_def)

lemma original_name_given:
  "doc_file_name doc = Some name \<Longrightarrow> lower (path_suffix name) \<in> ALLOWED_DOC_EXTENSIONS \<Longrightarrow>
   original_name doc = name"
  using allowed_not_Nil by (auto simp add: original_name_def path_suffix_Nil lower_def)

lemma get_user_files_after_insert:
  assumes "users d uid = Some r"
    and "\<forall>x\<in>set (storage d). row_user_id x = uid \<longrightarrow> uploaded_at x < uploaded_at new"
    and "row_user_id new = uid"
    and "users d' = users d" and "storage d' = storage d @ [new]"
  shows "get_user_files d' uid = (new, username r) # get_user_files d uid"
proof -
  have "\<forall>y\<in>set (filter (\<lambda>x. row_user_id x = uid) (storage d)). - uploaded_at new < - uploaded_at y"
    using assms(2) by auto
  then have "sort_key (\<lambda>x. - uploaded_at x) (filter (\<lambda>x. row_user_id x = uid) (storage d) @ [new]) =
             new # sort_key (\<lambda>x. - uploaded_at x) (filter (\<lambda>x. row_user_id x = uid) (storage d))"
    by (rule sort_key_snoc_least)
  with assms(1,3,4,5) show ?thesis by (simp add: get_user_files_def)
qed

lemma document_upload_stores:
  assumes "from_user m = Some usr" and "users (db w) (tg_id usr) = Some r" and "is_authorized r"
    and "document m = Some doc" and "doc_file_name doc = Some name"
    and "lower (path_suffix name) \<in> ALLOWED_DOC_EXTENSIONS"
    and "\<not> mkdir_raises e" and "\<not> download_raises e" and "\<not> insert_raises e"
    and "length name \<le> 255"
    and "length (temp_path (tg_id usr) (doc_file_unique_id doc @ lower (path_suffix name))) \<le> 1024"
  shows "db (handle_document_upload e m w) =
           (db w)\<lparr>storage := storage (db w) @
                     [\<lparr>row_id = storage_seq (db w), row_user_id = tg_id usr,
                       file_path = temp_path (tg_id usr) (doc_file_unique_id doc @ lower (path_suffix name)),
                       original_filename = name, file_type = ''document'', uploaded_at = now e\<rparr>],
                   storage_seq := storage_seq (db w) + 1,
                   logs := logs (db w) @ [(tg_id usr, AuDocumentUploaded name)]\<rparr>"
proof -
  have n: "original_name doc = name" using assms(5,6) by (rule original_name_given)
  show ?thesis
    using assms n
    by (simp add: handle_document_upload_def handle_document_upload_body_def
        require_authorization_def event_user_def get_user_def with_user_def Let_def
        save_uploaded_file_def add_file_record_def insert_storage_def emit_def send_def
        set_state_def clear_def log_user_action_def domI)
qed

lemma photo_upload_stores:
  assumes "from_user m = Some usr" and "users (db w) (tg_id usr) = Some r" and "is_authorized r"
    and "photo m \<noteq> []"
    and "\<not> mkdir_raises e" and "\<not> download_raises e" and "\<not> insert_raises e"
    and "length (photo_save_filename e (last (photo m))) \<le> 255"
    and "length (temp_path (tg_id usr) (photo_save_filename e (last (photo m)))) \<le> 1024"
  shows "db (handle_photo_upload e m w) =
           (db w)\<lparr>storage := storage (db w) @
                     [\<lparr>row_id = storage_seq (db w), row_user_id = tg_id usr,
                       file_path = temp_path (tg_id usr) (photo_save_filename e (last (photo m))),
                       original_filename = photo_save_filename e (last (photo m)),
                       file_type = ''photo'', uploaded_at = now e\<rparr>],
                   storage_seq := storage_seq (db w) + 1,
                   logs := logs (db w) @ [(tg_id usr, AuPhotoUploaded (photo_save_filename e (last (photo m))))]\<rparr>"
proof (cases "photo m")
  case Nil
  with assms(4) show ?thesis by simp
next
  case (Cons p ps)
  then have l: "last (p # ps) = last (photo m)" by simp
  show ?thesis
    using assms Cons
    by (simp add: handle_photo_upload_def handle_photo_upload_body_def
        require_authorization_def event_user_def get_user_def with_user_def Let_def
        save_uploaded_file_def add_file_record_def insert_storage_def emit_def send_def
        set_state_def clear_def log_user_action_def domI del: last.simps)
qed

subsection \<open>The generated path names its user and its file\<close>

lemma digit_char_inj: "a < 10 \<Longrightarrow> b < 10 \<Longrightarrow> digit_char a = digit_char b \<Longrightarrow> a = b"
  using nth_eq_iff_index_eq [of "''0123456789''" a b] by (simp add: digit_char_def)

lemma digit_char_digit: "a < 10 \<Longrightarrow> digit_char a \<in> set ''0123456789''"
  unfolding digit_char_def by (rule nth_mem) simp

lemma str_nat_small: "n < 10 \<Longrightarrow> str_nat n = [digit_char n]"
  by (subst str_nat.simps) (simp del: str_nat.simps)

lemma str_nat_big: "\<not> n < 10 \<Longrightarrow> str_nat n = str_nat (n div 10) @ [digit_char (n mod 10)]"
  by (subst str_nat.simps) (simp del: str_nat.simps)

lemma str_nat_not_Nil: "str_nat n \<noteq> []"
  by (cases "n < 10") (simp_all del: str_nat.simps add: str_nat_small str_nat_big)

lemma str_nat_digits: "set (str_nat n) \<subseteq> set ''0123456789''"
proof (induction n rule: str_nat.induct)
  case (1 n)
  show ?case
  proof (cases "n < 10")
    case True
    then show ?thesis using digit_char_digit [of n] by (simp del: str_nat.simps add: str_nat_small)
  next
    case False
    have "n mod 10 < 10" by simp
    then have "digit_char (n mod 10) \<in> set ''0123456789''" by (rule digit_char_digit)
    with False "1.IH" show ?thesis by (simp del: str_nat.simps add: str_nat_big)
  qed
qed

lemma str_nat_inj: "str_nat m = str_nat n \<Longrightarrow> m = n"
proof (induction m arbitrary: n rule: str_nat.induct)
  case (1 m)
  show ?case
  proof (cases "m < 10")
    case True
    show ?thesis
    proof (cases "n < 10")
      case n: True
      with True "1.prems" show ?thesis by (simp del: str_nat.simps add: str_nat_small digit_char_inj)
    next
      case n: False
      with True "1.prems" str_nat_not_Nil [of "n div 10"] show ?thesis
        by (simp del: str_nat.simps add: str_nat_small str_nat_big)
    qed
  next
    case False
    show ?thesis
    proof (cases "n < 10")
      case n: True
      with False "1.prems" str_nat_not_Nil [of "m div 10"] show ?thesis
        by (simp del: str_nat.simps add: str_nat_small str_nat_big)
    next
      case n: False
      with False "1.prems" have e: "str_nat (m div 10) = str_nat (n div 10)"
        and d: "digit_char (m mod 10) = digit_char (n mod 10)"
        by (simp_all del: str_nat.simps add: str_nat_big)
      from e False have "m div 10 = n div 10" by (rule "1.IH" [rotated])
      moreover from d have "m mod 10 = n mod 10" by (intro digit_char_inj) simp_all
      ultimately show ?thesis by (metis div_mult_mod_eq)
    qed
  qed
qed

lemma str_int_inj: "str_int i = str_int j \<Longrightarrow> i = j"
proof -
  assume a: "str_int i = str_int j"
  have nd: "CHR ''-'' \<notin> set (str_nat k)" for k
    using str_nat_digits [of k] by (auto simp del: str_nat.simps)
  have hd: "str_nat k \<noteq> CHR ''-'' # s" for k s
    using nd [of k] by (auto simp del: str_nat.simps)
  show ?thesis
  proof (cases "i < 0")
    case True
    show ?thesis
    proof (cases "j < 0")
      case j: True
      with True a have "str_nat (nat (- i)) = str_nat (nat (- j))" by (simp del: str_nat.simps add: str_int_def)
      then have "nat (- i) = nat (- j)" by (rule str_nat_inj)
      with True j show ?thesis by simp
    next
      case j: False
      with True a hd [of "nat j" "str_nat (nat (- i))"] show ?thesis by (simp del: str_nat.simps add: str_int_def)
    qed
  next
    case False
    show ?thesis
    proof (cases "j < 0")
      case j: True
      with False a hd [of "nat i" "str_nat (nat (- j))"] show ?thesis by (simp del: str_nat.simps add: str_int_def)
    next
      case j: False
      with False a have "str_nat (nat i) = str_nat (nat j)" by (simp del: str_nat.simps add: str_int_def)
      then have "nat i = nat j" by (rule str_nat_inj)
      with False j show ?thesis by simp
    qed
  qed
qed

lemma str_int_no_slash: "CHR ''/'' \<notin> set (str_int i)"
  using str_nat_digits [of "nat i"] str_nat_digits [of "nat (- i)"] by (auto simp del: str_nat.simps simp add: str_int_def)

lemma split_at_first:
  "xs @ c # a = ys @ c # b \<Longrightarrow> c \<notin> set xs \<Longrightarrow> c \<notin> set ys \<Longrightarrow> xs = ys \<and> a = b"
proof (induction xs arbitrary: ys)
  case Nil
  then show ?case by (cases ys) auto
next
  case (Cons x xs)
  then show ?case by (cases ys) auto
qed

lemma generated_path_inj:
  assumes "''temp/'' @ str_int u @ ''/'' @ a = ''temp/'' @ str_int v @ ''/'' @ b"
  shows "u = v \<and> a = b"
proof -
  from assms have "str_int u @ CHR ''/'' # a = str_int v @ CHR ''/'' # b" by simp
  then have "str_int u = str_int v \<and> a = b"
    using str_int_no_slash [of u] str_int_no_slash [of v] by (rule split_at_first)
  then show ?thesis using str_int_inj by blast
qed

text \<open>
  Claim C7 says that listing is a read without side effects and that the file stored last
  is listed with a storage handle distinct from the others. User 7 stores the same
  document twice, the second time later than the first: both rows of the listing carry
  the handle \<^verbatim>\<open>temp/7/AgAD.pdf\<close> (the second download has overwritten the first). And the
  body of the listing handler, run for user 7, appends a row to the audit log.
\<close>

theorem same_document_stored_twice:
  "map (\<lambda>x. (file_path (fst x), uploaded_at (fst x)))
     (get_user_files
        (db (handle_document_upload later ex_document_message
               (handle_document_upload calm ex_document_message ex_awaiting_world))) 7) =
     [(''temp/7/AgAD.pdf'', 300), (''temp/7/AgAD.pdf'', 200)] \<and>
   disk (handle_document_upload later ex_document_message
           (handle_document_upload calm ex_document_message ex_awaiting_world)) = {''temp/7/AgAD.pdf''} \<and>
   logs (db ex_awaiting_world) = [] \<and>
   logs (db (handle_list_files_body calm ex_list_message ex_awaiting_world)) = [(7, AuPressedListFiles)]"
  by (simp add: step_defs upload_defs eval_defs calm_def later_def ex_awaiting_world_def
      ex_document_message_def ex_list_message_def get_user_files_def handle_list_files_body_def)

text \<open>
  Claim C7, amended. \<^verbatim>\<open>get_user_files\<close> is a function of the store: it returns the rows of
  the user, each with the username of the owner's row, the later upload first. The body
  of the listing handler, for a sender with a row in \<^verbatim>\<open>users\<close>, appends one row to the audit
  log and sends the listing (one message for each file, or the notice that there are no
  files); it changes nothing else. Behind \<^verbatim>\<open>require_authorization\<close> that body is not
  reached, because the handler names no \<^verbatim>\<open>bot\<close> parameter: the handler only logs.
  After an upload by an authorized user that nothing interrupts, at a time later than the
  times of the user's stored rows, the listing is the new row followed by the listing
  from before: the new row carries the name of the document as it was submitted and the
  path \<^verbatim>\<open>temp/<user_id>/<file_unique_id><ext>\<close>; for a photo, name and path come from the
  file name \<^verbatim>\<open>photo_<file_unique_id>_<time>.jpg\<close>. Two such paths are equal only for the same
  user and the same generated file name.
\<close>

theorem list_files_newest_first:
  "sorted_wrt (\<lambda>a b. uploaded_at (fst b) \<le> uploaded_at (fst a)) (get_user_files d uid) \<and>
   (\<forall>u. users d uid = Some u \<longrightarrow>
      mset (map fst (get_user_files d uid)) = mset (filter (\<lambda>r. row_user_id r = uid) (storage d)) \<and>
      (\<forall>x\<in>set (get_user_files d uid). snd x = username u)) \<and>
   (\<forall>usr r.
      from_user m = Some usr \<and> users (db w) (tg_id usr) = Some r \<longrightarrow>
      handle_list_files_body e m w =
        w\<lparr>db := (db w)\<lparr>logs := logs (db w) @ [(tg_id usr, AuPressedListFiles)]\<rparr>,
          out := out w @
            (if get_user_files (db w) (tg_id usr) = []
             then [SendMessage (chat_id m) TxtNoFilesYet None]
             else SendMessage (chat_id m) TxtYourFiles None #
                  map (\<lambda>x. SendMessage (chat_id m) (format_file_info x)
                               (Some (create_delete_button (row_id (fst x)))))
                    (get_user_files (db w) (tg_id usr)))\<rparr> \<and>
      handle_list_files e m w =
        w\<lparr>out := out w @ [Log CRITICAL ''Could not get user, pool, or bot in require_authorization'']\<rparr>) \<and>
   (\<forall>usr r doc name.
      from_user m = Some usr \<and> users (db w) (tg_id usr) = Some r \<and> is_authorized r \<and>
      document m = Some doc \<and> doc_file_name doc = Some name \<and>
      lower (path_suffix name) \<in> ALLOWED_DOC_EXTENSIONS \<and>
      \<not> mkdir_raises e \<and> \<not> download_raises e \<and> \<not> insert_raises e \<and> length name \<le> 255 \<and>
      length (''temp/'' @ str_int (tg_id usr) @ ''/'' @ doc_file_unique_id doc @ lower (path_suffix name)) \<le> 1024 \<and>
      (\<forall>x\<in>set (storage (db w)). row_user_id x = tg_id usr \<longrightarrow> uploaded_at x < now e) \<longrightarrow>
      get_user_files (db (handle_document_upload e m w)) (tg_id usr) =
        (\<lparr>row_id = storage_seq (db w), row_user_id = tg_id usr,
          file_path = ''temp/'' @ str_int (tg_id usr) @ ''/'' @ doc_file_unique_id doc @ lower (path_suffix name),
          original_filename = name, file_type = ''document'', uploaded_at = now e\<rparr>, username r)
        # get_user_files (db w) (tg_id usr)) \<and>
   (\<forall>usr r.
      from_user m = Some usr \<and> users (db w) (tg_id usr) = Some r \<and> is_authorized r \<and>
      photo m \<noteq> [] \<and>
      \<not> mkdir_raises e \<and> \<not> download_raises e \<and> \<not> insert_raises e \<and>
      length (''photo_'' @ photo_file_unique_id (last (photo m)) @ ''_'' @ strftime_now e @ ''.jpg'') \<le> 255 \<and>
      length (''temp/'' @ str_int (tg_id usr) @ ''/'' @
              ''photo_'' @ photo_file_unique_id (last (photo m)) @ ''_'' @ strftime_now e @ ''.jpg'') \<le> 1024 \<and>
      (\<forall>x\<in>set (storage (db w)). row_user_id x = tg_id usr \<longrightarrow> uploaded_at x < now e) \<longrightarrow>
      get_user_files (db (handle_photo_upload e m w)) (tg_id usr) =
        (\<lparr>row_id = storage_seq (db w), row_user_id = tg_id usr,
          file_path = ''temp/'' @ str_int (tg_id usr) @ ''/'' @
                      ''photo_'' @ photo_file_unique_id (last (photo m)) @ ''_'' @ strftime_now e @ ''.jpg'',
          original_filename = ''photo_'' @ photo_file_unique_id (last (photo m)) @ ''_'' @ strftime_now e @ ''.jpg'',
          file_type = ''photo'', uploaded_at = now e\<rparr>, username r)
        # get_user_files (db w) (tg_id usr)) \<and>
   (\<forall>u v a b. ''temp/'' @ str_int u @ ''/'' @ a = ''temp/'' @ str_int v @ ''/'' @ b \<longrightarrow> u = v \<and> a = b)"
proof (intro conjI allI impI)
  show "sorted_wrt (\<lambda>a b. uploaded_at (fst b) \<le> uploaded_at (fst a)) (get_user_files d uid)"
    by (rule newest_first_sorted)
next
  fix u assume "users d uid = Some u"
  then show "mset (map fst (get_user_files d uid)) = mset (filter (\<lambda>r. row_user_id r = uid) (storage d))"
    using get_user_files_rows by blast
next
  fix u assume "users d uid = Some u"
  then show "\<forall>x\<in>set (get_user_files d uid). snd x = username u"
    using get_user_files_rows by blast
next
  fix usr :: tg_user and r :: user_row
  assume "from_user m = Some usr \<and> users (db w) (tg_id usr) = Some r"
  then show "handle_list_files_body e m w =
        w\<lparr>db := (db w)\<lparr>logs := logs (db w) @ [(tg_id usr, AuPressedListFiles)]\<rparr>,
          out := out w @
            (if get_user_files (db w) (tg_id usr) = []
             then [SendMessage (chat_id m) TxtNoFilesYet None]
             else SendMessage (chat_id m) TxtYourFiles None #
                  map (\<lambda>x. SendMessage (chat_id m) (format_file_info x)
                               (Some (create_delete_button (row_id (fst x)))))
                    (get_user_files (db w) (tg_id usr)))\<rparr>"
    by (elim conjE) (rule handle_list_files_body_effect; assumption)
next
  fix usr :: tg_user and r :: user_row
  assume "from_user m = Some usr \<and> users (db w) (tg_id usr) = Some r"
  then show "handle_list_files e m w =
        w\<lparr>out := out w @ [Log CRITICAL ''Could not get user, pool, or bot in require_authorization'']\<rparr>"
    by (simp add: handle_list_files_def require_authorization_def guard_failed_def event_user_def
        is_callback_def emit_def Let_def)
next
  fix usr :: tg_user and r :: user_row and doc :: document and name :: string
  assume h: "from_user m = Some usr \<and> users (db w) (tg_id usr) = Some r \<and> is_authorized r \<and>
      document m = Some doc \<and> doc_file_name doc = Some name \<and>
      lower (path_suffix name) \<in> ALLOWED_DOC_EXTENSIONS \<and>
      \<not> mkdir_raises e \<and> \<not> download_raises e \<and> \<not> insert_raises e \<and> length name \<le> 255 \<and>
      length (''temp/'' @ str_int (tg_id usr) @ ''/'' @ doc_file_unique_id doc @ lower (path_suffix name)) \<le> 1024 \<and>
      (\<forall>x\<in>set (storage (db w)). row_user_id x = tg_id usr \<longrightarrow> uploaded_at x < now e)"
  then have len: "length (temp_path (tg_id usr) (doc_file_unique_id doc @ lower (path_suffix name))) \<le> 1024"
    by (simp add: temp_path_def)
  with h have stored: "db (handle_document_upload e m w) =
           (db w)\<lparr>storage := storage (db w) @
                     [\<lparr>row_id = storage_seq (db w), row_user_id = tg_id usr,
                       file_path = temp_path (tg_id usr) (doc_file_unique_id doc @ lower (path_suffix name)),
                       original_filename = name, file_type = ''document'', uploaded_at = now e\<rparr>],
                   storage_seq := storage_seq (db w) + 1,
                   logs := logs (db w) @ [(tg_id usr, AuDocumentUploaded name)]\<rparr>"
    by (elim conjE) (rule document_upload_stores; assumption)
  from h show "get_user_files (db (handle_document_upload e m w)) (tg_id usr) =
        (\<lparr>row_id = storage_seq (db w), row_user_id = tg_id usr,
          file_path = ''temp/'' @ str_int (tg_id usr) @ ''/'' @ doc_file_unique_id doc @ lower (path_suffix name),
          original_filename = name, file_type = ''document'', uploaded_at = now e\<rparr>, username r)
        # get_user_files (db w) (tg_id usr)"
    by (intro get_user_files_after_insert) (auto simp add: stored temp_path_def)
next
  fix usr :: tg_user and r :: user_row
  assume h: "from_user m = Some usr \<and> users (db w) (tg_id usr) = Some r \<and> is_authorized r \<and>
      photo m \<noteq> [] \<and>
      \<not> mkdir_raises e \<and> \<not> download_raises e \<and> \<not> insert_raises e \<and>
      length (''photo_'' @ photo_file_unique_id (last (photo m)) @ ''_'' @ strftime_now e @ ''.jpg'') \<le> 255 \<and>
      length (''temp/'' @ str_int (tg_id usr) @ ''/'' @
              ''photo_'' @ photo_file_unique_id (last (photo m)) @ ''_'' @ strftime_now e @ ''.jpg'') \<le> 1024 \<and>
      (\<forall>x\<in>set (storage (db w)). row_user_id x = tg_id usr \<longrightarrow> uploaded_at x < now e)"
  then have len: "length (photo_save_filename e (last (photo m))) \<le> 255"
      "length (temp_path (tg_id usr) (photo_save_filename e (last (photo m)))) \<le> 1024"
    by (simp_all add: temp_path_def photo_save_filename_def)
  with h have stored: "db (handle_photo_upload e m w) =
           (db w)\<lparr>storage := storage (db w) @
                     [\<lparr>row_id = storage_seq (db w), row_user_id = tg_id usr,
                       file_path = temp_path (tg_id usr) (photo_save_filename e (last (photo m))),
                       original_filename = photo_save_filename e (last (photo m)),
                       file_type = ''photo'', uploaded_at = now e\<rparr>],
                   storage_seq := storage_seq (db w) + 1,
                   logs := logs (db w) @ [(tg_id usr, AuPhotoUploaded (photo_save_filename e (last (photo m))))]\<rparr>"
    by (elim conjE) (rule photo_upload_stores; assumption)
  from h show "get_user_files (db (handle_photo_upload e m w)) (tg_id usr) =
        (\<lparr>row_id = storage_seq (db w), row_user_id = tg_id usr,
          file_path = ''temp/'' @ str_int (tg_id usr) @ ''/'' @
                      ''photo_'' @ photo_file_unique_id (last (photo m)) @ ''_'' @ strftime_now e @ ''.jpg'',
          original_filename = ''photo_'' @ photo_file_unique_id (last (photo m)) @ ''_'' @ strftime_now e @ ''.jpg'',
          file_type = ''photo'', uploaded_at = now e\<rparr>, username r)
        # get_user_files (db w) (tg_id usr)"
    by (intro get_user_files_after_insert) (auto simp add: stored temp_path_def photo_save_filename_def)
next
  fix u v :: int and a b :: string
  assume "''temp/'' @ str_int u @ ''/'' @ a = ''temp/'' @ str_int v @ ''/'' @ b"
  then show "u = v" by (rule generated_path_inj [THEN conjunct1])
next
  fix u v :: int and a b :: string
  assume "''temp/'' @ str_int u @ ''/'' @ a = ''temp/'' @ str_int v @ ''/'' @ b"
  then show "a = b" by (rule generated_path_inj [THEN conjunct2])
qed

theorem list_files_newest_first_witness:
  "from_user ex_document_message = Some \<lparr>tg_id = 7, tg_username = Some ''ann''\<rparr> \<and>
   users (db ex_library_world) 7 = Some \<lparr>username = Some ''ann'', registered_at = 1, is_authorized = True\<rparr> \<and>
   doc_file_name \<lparr>doc_file_id = ''BQAC'', doc_file_unique_id = ''AgAD'', doc_file_name = Some ''report.pdf''\<rparr>
     = Some ''report.pdf'' \<and>
   lower (path_suffix ''report.pdf'') \<in> ALLOWED_DOC_EXTENSIONS \<and>
   map uploaded_at (storage (db ex_library_world)) = [100] \<and> now calm = 200 \<and>
   map (\<lambda>x. (original_filename (fst x), file_path (fst x), uploaded_at (fst x), snd x))
     (get_user_files (db (handle_document_upload calm ex_document_message ex_library_world)) 7) =
     [(''report.pdf'', ''temp/7/AgAD.pdf'', 200, Some ''ann''),
      (''photo_AQAD_20231231_090000.jpg'', ''temp/7/photo_AQAD_20231231_090000.jpg'', 100, Some ''ann'')] \<and>
   map (\<lambda>x. (original_filename (fst x), file_path (fst x), uploaded_at (fst x), snd x))
     (get_user_files (db (handle_photo_upload calm ex_photo_message ex_library_world)) 7) =
     [(''photo_AQAD-x_20240101_120000.jpg'', ''temp/7/photo_AQAD-x_20240101_120000.jpg'', 200, Some ''ann''),
      (''photo_AQAD_20231231_090000.jpg'', ''temp/7/photo_AQAD_20231231_090000.jpg'', 100, Some ''ann'')] \<and>
   handle_list_files_body calm ex_list_message ex_library_world =
     ex_library_world
       \<lparr>db := (db ex_library_world)\<lparr>logs := [(7, AuPressedListFiles)]\<rparr>,
        out := [SendMessage 7 TxtYourFiles None,
                SendMessage 7
                  (format_file_info
                     (\<lparr>row_id = 1, row_user_id = 7, file_path = ''temp/7/photo_AQAD_20231231_090000.jpg'',
                       original_filename = ''photo_AQAD_20231231_090000.jpg'', file_type = ''photo'',
                       uploaded_at = 100\<rparr>, Some ''ann''))
                  (Some (create_delete_button 1))]\<rparr> \<and>
   handle_list_files calm ex_list_message ex_library_world =
     ex_library_world\<lparr>out := [Log CRITICAL ''Could not get user, pool, or bot in require_authorization'']\<rparr>"
  using list_files_newest_first
          [where m = ex_document_message and w = ex_library_world and e = calm
             and d = "db ex_library_world" and uid = 7,
           THEN conjunct2, THEN conjunct2, THEN conjunct2, THEN conjunct1]
        list_files_newest_first
          [where m = ex_photo_message and w = ex_library_world and e = calm
             and d = "db ex_library_world" and uid = 7,
           THEN conjunct2, THEN conjunct2, THEN conjunct2, THEN conjunct2, THEN conjunct1]
        list_files_newest_first
          [where m = ex_list_message and w = ex_library_world and e = calm
             and d = "db ex_library_world" and uid = 7,
           THEN conjunct2, THEN conjunct2, THEN conjunct1]
  by (simp add: step_defs upload_defs eval_defs calm_def ex_library_world_def ex_document_message_def
      ex_photo_message_def ex_list_message_def get_user_files_def)

section \<open>What a handler leaves alone\<close>

text \<open>
  For each handler: what it does to the sessions and to the rows of the ledger. A gated
  handler either runs its body or changes neither.
\<close>

lemmas small_defs = with_user_def emit_def send_def set_state_def clear_def log_user_action_def
  get_user_def Let_def

lemma authorize_storage: "storage (snd (authorize_user_with_key f uid k d)) = storage d"
  by (simp add: authorize_defs split: option.splits)

lemma cmd_start_frame:
  "fsm (cmd_start e m w) = fsm w \<and> storage (db (cmd_start e m w)) = storage (db w)"
  by (simp add: cmd_start_def add_user_def small_defs split: option.splits sum.splits)

lemma cmd_auth_frame:
  "fsm (cmd_auth e m w) = fsm w \<and> storage (db (cmd_auth e m w)) = storage (db w)"
proof (cases "from_user m")
  case None
  then show ?thesis by (simp add: cmd_auth_def small_defs)
next
  case (Some u)
  obtain res d' where a: "authorize_user_with_key (txn_fault e) (tg_id u) (the (command_args m)) (db w) = (res, d')"
    by (cases "authorize_user_with_key (txn_fault e) (tg_id u) (the (command_args m)) (db w)")
  then have "storage d' = storage (db w)"
    using authorize_storage [of "txn_fault e" "tg_id u" "the (command_args m)" "db w"] by simp
  with Some a show ?thesis
    by (auto simp add: cmd_auth_def small_defs split: option.splits sum.splits prod.splits)
qed

lemma handle_auth_button_frame:
  "fsm (handle_auth_button e m w) = fsm w \<and> storage (db (handle_auth_button e m w)) = storage (db w)"
  by (simp add: handle_auth_button_def small_defs split: option.splits)

lemma cancel_upload_command_frame:
  "storage (db (cancel_upload_command e m w)) = storage (db w) \<and>
   (fsm (cancel_upload_command e m w) = fsm w \<or>
    (\<exists>u. from_user m = Some u \<and> fsm (cancel_upload_command e m w) = (fsm w)(tg_id u := Idle)))"
  by (simp add: cancel_upload_command_def small_defs split: option.splits)

lemma handle_logout_body_frame:
  "fsm (handle_logout_body e m w) = fsm w \<and> storage (db (handle_logout_body e m w)) = storage (db w)"
  by (simp add: handle_logout_body_def set_user_authorization_status_def small_defs split: option.splits)

lemma handle_process_file_body_frame:
  "storage (db (handle_process_file_body e m w)) = storage (db w) \<and>
   (fsm (handle_process_file_body e m w) = fsm w \<or>
    (\<exists>u. from_user m = Some u \<and>
         fsm (handle_process_file_body e m w) = (fsm w)(tg_id u := choosing_file_type)))"
  by (simp add: handle_process_file_body_def small_defs split: option.splits)

lemma handle_wrong_document_input_body_frame:
  "fsm (handle_wrong_document_input_body e m w) = fsm w \<and>
   storage (db (handle_wrong_document_input_body e m w)) = storage (db w)"
  by (simp add: handle_wrong_document_input_body_def small_defs split: option.splits)

lemma handle_wrong_photo_input_body_frame:
  "fsm (handle_wrong_photo_input_body e m w) = fsm w \<and>
   storage (db (handle_wrong_photo_input_body e m w)) = storage (db w)"
  by (simp add: handle_wrong_photo_input_body_def small_defs split: option.splits)

lemma handle_text_instead_of_callback_body_frame:
  "fsm (handle_text_instead_of_callback_body e m w) = fsm w \<and>
   storage (db (handle_text_instead_of_callback_body e m w)) = storage (db w)"
  by (simp add: handle_text_instead_of_callback_body_def small_defs split: option.splits)

lemma handle_file_type_choice_body_frame:
  "storage (db (handle_file_type_choice_body e q w)) = storage (db w) \<and>
   (fsm (handle_file_type_choice_body e q w) = fsm w \<or>
    (\<exists>u s. cq_from_user q = Some u \<and> s \<in> {awaiting_document, awaiting_photo, Idle} \<and>
           fsm (handle_file_type_choice_body e q w) = (fsm w)(tg_id u := s)))"
  by (auto simp add: handle_file_type_choice_body_def small_defs split: option.splits)

lemma delete_file_record_frame:
  "fsm (snd (delete_file_record fid w)) = fsm w \<and>
   set (storage (db (snd (delete_file_record fid w)))) \<subseteq> set (storage (db w))"
  by (auto simp add: delete_file_record_def small_defs split: option.splits)

lemma delete_refused_frame:
  "fsm (delete_refused q u w) = fsm w \<and> storage (db (delete_refused q u w)) = storage (db w)"
  by (simp add: delete_refused_def small_defs split: option.splits)

lemma delete_done_frame:
  "fsm (delete_done e q u p w) = fsm w \<and> storage (db (delete_done e q u p w)) = storage (db w)"
  by (simp add: delete_done_def delete_file_from_disk_def small_defs split: option.splits)

lemma handle_delete_file_body_frame:
  "fsm (handle_delete_file_body e q w) = fsm w \<and>
   set (storage (db (handle_delete_file_body e q w))) \<subseteq> set (storage (db w))"
proof (cases "cq_from_user q")
  case None
  then show ?thesis by (simp add: handle_delete_file_body_def small_defs)
next
  case (Some u)
  obtain p w1 where d: "delete_file_record (callback_file_id q) w = (p, w1)"
    by (cases "delete_file_record (callback_file_id q) w")
  then have f: "fsm w1 = fsm w \<and> set (storage (db w1)) \<subseteq> set (storage (db w))"
    using delete_file_record_frame [of "callback_file_id q" w] by simp
  show ?thesis
    using Some d f delete_refused_frame [of q u w1] delete_done_frame [of e q u _ w1]
    by (auto simp add: handle_delete_file_body_def with_user_def split: option.splits)
qed

lemma handle_document_upload_body_frame:
  "(fsm (handle_document_upload_body e m w) = fsm w \<or>
    (\<exists>u. from_user m = Some u \<and> fsm (handle_document_upload_body e m w) = (fsm w)(tg_id u := Idle))) \<and>
   (storage (db (handle_document_upload_body e m w)) = storage (db w) \<or>
    (\<exists>r. storage (db (handle_document_upload_body e m w)) = storage (db w) @ [r] \<and>
         lower (path_suffix (original_filename r)) \<in> ALLOWED_DOC_EXTENSIONS))"
  by (auto simp add: handle_document_upload_body_def save_uploaded_file_def add_file_record_def
      insert_storage_def small_defs split: option.splits sum.splits prod.splits db_error.splits)

lemma handle_photo_upload_body_frame:
  "(fsm (handle_photo_upload_body e m w) = fsm w \<or>
    (\<exists>u. from_user m = Some u \<and> fsm (handle_photo_upload_body e m w) = (fsm w)(tg_id u := Idle))) \<and>
   (storage (db (handle_photo_upload_body e m w)) = storage (db w) \<or>
    (\<exists>r. storage (db (handle_photo_upload_body e m w)) = storage (db w) @ [r] \<and>
         file_type r = ''photo''))"
  by (cases "photo m")
     (auto simp add: handle_photo_upload_body_def save_uploaded_file_def add_file_record_def
      insert_storage_def small_defs split: option.splits sum.splits prod.splits db_error.splits)

lemma handle_list_files_body_frame:
  "users (db (handle_list_files_body e m w)) = users (db w) \<and>
   auth_keys (db (handle_list_files_body e m w)) = auth_keys (db w) \<and>
   storage (db (handle_list_files_body e m w)) = storage (db w) \<and>
   storage_seq (db (handle_list_files_body e m w)) = storage_seq (db w) \<and>
   disk (handle_list_files_body e m w) = disk w \<and> fsm (handle_list_files_body e m w) = fsm w"
  by (simp add: handle_list_files_body_def with_user_def Let_def fold_send log_user_action_def
      send_def emit_def split: option.splits)

lemma require_authorization_cases:
  "require_authorization kwargs func ev w = func w \<or>
   (db (require_authorization kwargs func ev w) = db w \<and> disk (require_authorization kwargs func ev w) = disk w \<and>
    fsm (require_authorization kwargs func ev w) = fsm w)"
  by (simp add: require_authorization_def guard_failed_def deny_def emit_def send_def Let_def split: option.splits)

lemma handle_list_files_frame:
  "users (db (handle_list_files e m w)) = users (db w) \<and>
   auth_keys (db (handle_list_files e m w)) = auth_keys (db w) \<and>
   storage (db (handle_list_files e m w)) = storage (db w) \<and>
   storage_seq (db (handle_list_files e m w)) = storage_seq (db w) \<and>
   disk (handle_list_files e m w) = disk w \<and> fsm (handle_list_files e m w) = fsm w"
  using require_authorization_cases [of "[''pool'']" "handle_list_files_body e m" "Message m" w]
        handle_list_files_body_frame [of e m w]
  by (auto simp add: handle_list_files_def)

lemma gated_fsm:
  "fsm (require_authorization kwargs func ev w) = fsm w \<or> require_authorization kwargs func ev w = func w"
  using require_authorization_cases [of kwargs func ev w] by blast

lemma gated_storage:
  "storage (db (require_authorization kwargs func ev w)) = storage (db w) \<or>
   require_authorization kwargs func ev w = func w"
  using require_authorization_cases [of kwargs func ev w] by auto

lemma handle_logout_frame:
  "fsm (handle_logout e m w) = fsm w \<and> storage (db (handle_logout e m w)) = storage (db w)"
  using gated_fsm [of "[''pool'']" "handle_logout_body e m" "Message m" w]
        gated_storage [of "[''pool'']" "handle_logout_body e m" "Message m" w]
        handle_logout_body_frame [of e m w]
  by (auto simp add: handle_logout_def)

lemma handle_process_file_frame:
  "storage (db (handle_process_file e m w)) = storage (db w) \<and>
   (fsm (handle_process_file e m w) = fsm w \<or>
    (\<exists>u. from_user m = Some u \<and> fsm (handle_process_file e m w) = (fsm w)(tg_id u := choosing_file_type)))"
  using gated_fsm [of "[''state'', ''pool'']" "handle_process_file_body e m" "Message m" w]
        gated_storage [of "[''state'', ''pool'']" "handle_process_file_body e m" "Message m" w]
        handle_process_file_body_frame [of e m w]
  by (auto simp add: handle_process_file_def)

lemma handle_list_files_frame':
  "fsm (handle_list_files e m w) = fsm w \<and> storage (db (handle_list_files e m w)) = storage (db w)"
  using handle_list_files_frame [of e m w] by simp

lemma handle_document_upload_frame:
  "(fsm (handle_document_upload e m w) = fsm w \<or>
    (\<exists>u. from_user m = Some u \<and> fsm (handle_document_upload e m w) = (fsm w)(tg_id u := Idle))) \<and>
   (storage (db (handle_document_upload e m w)) = storage (db w) \<or>
    (\<exists>r. storage (db (handle_document_upload e m w)) = storage (db w) @ [r] \<and>
         lower (path_suffix (original_filename r)) \<in> ALLOWED_DOC_EXTENSIONS))"
  using gated_fsm [of "[''state'', ''pool'', ''bot'']" "handle_document_upload_body e m" "Message m" w]
        gated_storage [of "[''state'', ''pool'', ''bot'']" "handle_document_upload_body e m" "Message m" w]
        handle_document_upload_body_frame [of e m w]
  by (auto simp add: handle_document_upload_def)

lemma handle_photo_upload_frame:
  "(fsm (handle_photo_upload e m w) = fsm w \<or>
    (\<exists>u. from_user m = Some u \<and> fsm (handle_photo_upload e m w) = (fsm w)(tg_id u := Idle))) \<and>
   (storage (db (handle_photo_upload e m w)) = storage (db w) \<or>
    (\<exists>r. storage (db (handle_photo_upload e m w)) = storage (db w) @ [r] \<and> file_type r = ''photo''))"
  using gated_fsm [of "[''state'', ''pool'', ''bot'']" "handle_photo_upload_body e m" "Message m" w]
        gated_storage [of "[''state'', ''pool'', ''bot'']" "handle_photo_upload_body e m" "Message m" w]
        handle_photo_upload_body_frame [of e m w]
  by (auto simp add: handle_photo_upload_def)

lemma handle_wrong_document_input_frame:
  "fsm (handle_wrong_document_input e m w) = fsm w \<and>
   storage (db (handle_wrong_document_input e m w)) = storage (db w)"
  using gated_fsm [of "[''pool'']" "handle_wrong_document_input_body e m" "Message m" w]
        gated_storage [of "[''pool'']" "handle_wrong_document_input_body e m" "Message m" w]
        handle_wrong_document_input_body_frame [of e m w]
  by (auto simp add: handle_wrong_document_input_def)

lemma handle_wrong_photo_input_frame:
  "fsm (handle_wrong_photo_input e m w) = fsm w \<and>
   storage (db (handle_wrong_photo_input e m w)) = storage (db w)"
  using gated_fsm [of "[''pool'']" "handle_wrong_photo_input_body e m" "Message m" w]
        gated_storage [of "[''pool'']" "handle_wrong_photo_input_body e m" "Message m" w]
        handle_wrong_photo_input_body_frame [of e m w]
  by (auto simp add: handle_wrong_photo_input_def)

lemma handle_text_instead_of_callback_frame:
  "fsm (handle_text_instead_of_callback e m w) = fsm w \<and>
   storage (db (handle_text_instead_of_callback e m w)) = storage (db w)"
  using gated_fsm [of "[''pool'']" "handle_text_instead_of_callback_body e m" "Message m" w]
        gated_storage [of "[''pool'']" "handle_text_instead_of_callback_body e m" "Message m" w]
        handle_text_instead_of_callback_body_frame [of e m w]
  by (auto simp add: handle_text_instead_of_callback_def)

lemma handle_file_type_choice_frame:
  "storage (db (handle_file_type_choice e q w)) = storage (db w) \<and>
   (fsm (handle_file_type_choice e q w) = fsm w \<or>
    (\<exists>u s. cq_from_user q = Some u \<and> s \<in> {awaiting_document, awaiting_photo, Idle} \<and>
           fsm (handle_file_type_choice e q w) = (fsm w)(tg_id u := s)))"
  using gated_fsm [of "[''callback_data'', ''state'', ''pool'']" "handle_file_type_choice_body e q" "CallbackQuery q" w]
        gated_storage [of "[''callback_data'', ''state'', ''pool'']" "handle_file_type_choice_body e q" "CallbackQuery q" w]
        handle_file_type_choice_body_frame [of e q w]
  by (auto simp add: handle_file_type_choice_def)

lemma handle_delete_file_frame:
  "fsm (handle_delete_file e q w) = fsm w \<and>
   set (storage (db (handle_delete_file e q w))) \<subseteq> set (storage (db w))"
  using gated_fsm [of "[''callback_data'', ''pool'']" "handle_delete_file_body e q" "CallbackQuery q" w]
        gated_storage [of "[''callback_data'', ''pool'']" "handle_delete_file_body e q" "CallbackQuery q" w]
        handle_delete_file_body_frame [of e q w]
  by (auto simp add: handle_delete_file_def)

section \<open>The session\<close>

text \<open>
  Claim C6 says that an event which is not the input the session waits for leaves the
  session where it is and is answered with a request to retry or to cancel. User 7 is
  authorized. A plain text arrives while the session waits for a document, while it
  waits for a photo, and while the kind is being chosen: each time the router hands it
  to the handler written for that case, whose body sends the request; the wrapper
  \<^verbatim>\<open>require_authorization\<close> returns before the body, since none of the three handlers
  names \<^verbatim>\<open>bot\<close>. The session stays and the user is sent nothing. The menu button that
  starts an upload fares the same: the session stays idle.
\<close>

theorem wrong_input_gets_no_reply:
  "users (db ex_awaiting_world) 7 =
     Some \<lparr>username = Some ''ann'', registered_at = 1, is_authorized = True\<rparr> \<and>
   fsm ex_awaiting_world 7 = awaiting_document \<and> document ex_text_message = None \<and>
   feed_update calm (Message ex_text_message) ex_awaiting_world =
     ex_awaiting_world
       \<lparr>out := [Log CRITICAL ''Could not get user, pool, or bot in require_authorization'']\<rparr> \<and>
   out (handle_wrong_document_input_body calm ex_text_message ex_awaiting_world) =
     [SendMessage 7 (TxtExpectDocument ALLOWED_DOC_EXTENSIONS) None] \<and>
   feed_update calm (Message ex_text_message)
       (ex_awaiting_world\<lparr>fsm := (\<lambda>u. Idle)(7 := awaiting_photo)\<rparr>) =
     ex_awaiting_world
       \<lparr>fsm := (\<lambda>u. Idle)(7 := awaiting_photo),
        out := [Log CRITICAL ''Could not get user, pool, or bot in require_authorization'']\<rparr> \<and>
   out (handle_wrong_photo_input_body calm ex_text_message ex_awaiting_world) =
     [SendMessage 7 TxtExpectPhoto None] \<and>
   feed_update calm (Message ex_text_message)
       (ex_awaiting_world\<lparr>fsm := (\<lambda>u. Idle)(7 := choosing_file_type)\<rparr>) =
     ex_awaiting_world
       \<lparr>fsm := (\<lambda>u. Idle)(7 := choosing_file_type),
        out := [Log CRITICAL ''Could not get user, pool, or bot in require_authorization'']\<rparr> \<and>
   out (handle_text_instead_of_callback_body calm ex_text_message ex_awaiting_world) =
     [SendMessage 7 TxtPressButton None] \<and>
   feed_update calm (Message (ex_text_message\<lparr>button := Some BtnProcessFile\<rparr>))
       (ex_awaiting_world\<lparr>fsm := (\<lambda>u. Idle)\<rparr>) =
     ex_awaiting_world
       \<lparr>fsm := (\<lambda>u. Idle),
        out := [Log CRITICAL ''Could not get user, pool, or bot in require_authorization'']\<rparr> \<and>
   fsm (handle_process_file_body calm (ex_text_message\<lparr>button := Some BtnProcessFile\<rparr>)
          (ex_awaiting_world\<lparr>fsm := (\<lambda>u. Idle)\<rparr>)) 7 = choosing_file_type"
  by (simp add: step_defs gated_defs calm_def ex_awaiting_world_def ex_text_message_def
      handle_wrong_document_input_body_def handle_wrong_photo_input_body_def
      handle_text_instead_of_callback_body_def handle_process_file_body_def)

section \<open>The names of stored documents\<close>

lemma lower_drop: "lower (drop i s) = drop i (lower s)"
  by (simp add: lower_def drop_map)

lemma suffix_allowed:
  assumes "lower (path_suffix n) \<in> ALLOWED_DOC_EXTENSIONS"
  shows "ends_with_allowed (path_name n)"
proof -
  from assms have "path_suffix n \<noteq> []"
    using allowed_not_Nil by (auto simp add: lower_def)
  then obtain i where "path_suffix n = drop i (path_name n)"
    by (auto simp add: path_suffix_def Let_def split: option.splits if_splits)
  then have "lower (path_suffix n) = drop i (lower (path_name n))"
    by (simp add: lower_drop)
  then have "suffix (lower (path_suffix n)) (lower (path_name n))"
    by (simp add: suffix_drop)
  with assms show ?thesis
    by (auto simp add: ends_with_allowed_def ALLOWED_DOC_EXTENSIONS_def)
qed

lemma feed_update_storage:
  "set (storage (db (feed_update e ev w))) \<subseteq> set (storage (db w)) \<or>
   (\<exists>r. storage (db (feed_update e ev w)) = storage (db w) @ [r] \<and>
        (file_type r = ''photo'' \<or> lower (path_suffix (original_filename r)) \<in> ALLOWED_DOC_EXTENSIONS))"
proof (cases ev)
  case (Message m)
  show ?thesis
    using cmd_start_frame [of e m w] cmd_auth_frame [of e m w] handle_auth_button_frame [of e m w]
      handle_logout_frame [of e m w] handle_process_file_frame [of e m w]
      handle_list_files_frame' [of e m w] handle_document_upload_frame [of e m w]
      handle_photo_upload_frame [of e m w] handle_wrong_document_input_frame [of e m w]
      handle_wrong_photo_input_frame [of e m w] handle_text_instead_of_callback_frame [of e m w]
      cancel_upload_command_frame [of e m w]
    by (auto simp add: Message feed_update_def message_handlers_def)
next
  case (CallbackQuery q)
  show ?thesis
    using handle_file_type_choice_frame [of e q w] handle_delete_file_frame [of e q w]
    by (auto simp add: CallbackQuery feed_update_def callback_query_handlers_def)
qed

lemma feed_update_document_rows:
  assumes "\<forall>r\<in>set (storage (db w)). file_type r = ''document'' \<longrightarrow>
             ends_with_allowed (path_name (original_filename r))"
  shows "\<forall>r\<in>set (storage (db (feed_update e ev w))). file_type r = ''document'' \<longrightarrow>
             ends_with_allowed (path_name (original_filename r))"
  using assms feed_update_storage [of e ev w] suffix_allowed by fastforce

lemma run_document_rows:
  "\<forall>r\<in>set (storage (db w)). file_type r = ''document'' \<longrightarrow>
       ends_with_allowed (path_name (original_filename r)) \<Longrightarrow>
   \<forall>r\<in>set (storage (db (run evs w))). file_type r = ''document'' \<longrightarrow>
       ends_with_allowed (path_name (original_filename r))"
proof (induction evs arbitrary: w)
  case Nil
  then show ?case by simp
next
  case (Cons x evs)
  obtain e ev where x: "x = (e, ev)" by (cases x)
  from Cons.prems have "\<forall>r\<in>set (storage (db (feed_update e ev w))). file_type r = ''document'' \<longrightarrow>
       ends_with_allowed (path_name (original_filename r))"
    by (rule feed_update_document_rows)
  then show ?case using Cons.IH x by simp
qed

lemma nameless_document: "original_name doc = ''unknown_document''" if "doc_file_name doc = None"
  using that by (simp add: original_name_def)

lemma unknown_document_suffix: "path_suffix ''unknown_document'' = []"
  by (simp add: path_suffix_def path_name_def)

lemma document_without_extension_rejected:
  assumes "from_user m = Some usr" and "users (db w) (tg_id usr) = Some r" and "is_authorized r"
    and "fsm w (tg_id usr) = awaiting_document" and "command m = None" and "button m = None"
    and "document m = Some doc" and "path_suffix (original_name doc) = []"
  shows "storage (db (feed_update e (Message m) w)) = storage (db w) \<and>
         fsm (feed_update e (Message m) w) = fsm w \<and>
         disk (feed_update e (Message m) w) = disk w \<and>
         out (feed_update e (Message m) w) =
           out w @ [SendMessage (chat_id m) (TxtWrongFormat [] ALLOWED_DOC_EXTENSIONS) None]"
  using assms allowed_not_Nil
  by (auto simp add: step_defs handle_document_upload_def handle_document_upload_body_def Let_def
      lower_def)

text \<open>
  Claim C10 says that the name of every stored document ends in an allowed extension.
  The extension is read from the last component of the name as a path, and the name is
  stored as it came: \<^verbatim>\<open>report.pdf/\<close> has the suffix \<^verbatim>\<open>.pdf\<close>, is accepted and stored,
  and does not end in an allowed extension.
\<close>

theorem stored_name_with_trailing_slash:
  "storage (db (feed_update calm (Message ex_slash_message) ex_awaiting_world)) =
     [\<lparr>row_id = 1, row_user_id = 7, file_path = ''temp/7/AgAD.pdf'',
       original_filename = ''report.pdf/'', file_type = ''document'', uploaded_at = 200\<rparr>] \<and>
   \<not> ends_with_allowed ''report.pdf/''"
  by (simp add: step_defs upload_defs eval_defs calm_def ex_awaiting_world_def ex_slash_message_def
      ex_document_message_def ends_with_allowed_def suffix_to_prefix)

text \<open>
  Claim C10, amended. A document without a name is taken as \<^verbatim>\<open>unknown_document\<close>, which
  has no suffix, and a document whose name has no suffix is rejected for an authorized
  user in state \<open>awaiting_document\<close>: the ledger, the sessions and the disk stay as they
  are and the reply names the empty suffix and the allowed set. Every run of the bot
  keeps the property that each row of kind document has a name whose last path component
  ends, without regard to case, in one of the allowed extensions; it holds of every
  store reached from the one \<^verbatim>\<open>create_tables\<close> leaves.
\<close>

theorem stored_documents_have_allowed_suffix:
  "(\<forall>m usr r doc.
      from_user m = Some usr \<and> users (db w) (tg_id usr) = Some r \<and> is_authorized r \<and>
      fsm w (tg_id usr) = awaiting_document \<and> command m = None \<and> button m = None \<and>
      document m = Some doc \<and> path_suffix (original_name doc) = [] \<longrightarrow>
      storage (db (feed_update e (Message m) w)) = storage (db w) \<and>
      fsm (feed_update e (Message m) w) = fsm w \<and>
      disk (feed_update e (Message m) w) = disk w \<and>
      out (feed_update e (Message m) w) =
        out w @ [SendMessage (chat_id m) (TxtWrongFormat [] ALLOWED_DOC_EXTENSIONS) None]) \<and>
   (\<forall>doc. doc_file_name doc = None \<longrightarrow>
      original_name doc = ''unknown_document'' \<and> path_suffix (original_name doc) = []) \<and>
   ((\<forall>r\<in>set (storage (db w)). file_type r = ''document'' \<longrightarrow>
        ends_with_allowed (path_name (original_filename r))) \<longrightarrow>
    (\<forall>r\<in>set (storage (db (run evs w))). file_type r = ''document'' \<longrightarrow>
        ends_with_allowed (path_name (original_filename r)))) \<and>
   (\<forall>r\<in>set (storage (db (run evs initial_world))). file_type r = ''document'' \<longrightarrow>
        ends_with_allowed (path_name (original_filename r)))"
proof (intro conjI allI impI)
  fix m :: message and usr :: tg_user and r :: user_row and doc :: document
  assume h: "from_user m = Some usr \<and> users (db w) (tg_id usr) = Some r \<and> is_authorized r \<and>
      fsm w (tg_id usr) = awaiting_document \<and> command m = None \<and> button m = None \<and>
      document m = Some doc \<and> path_suffix (original_name doc) = []"
  then have "storage (db (feed_update e (Message m) w)) = storage (db w) \<and>
         fsm (feed_update e (Message m) w) = fsm w \<and>
         disk (feed_update e (Message m) w) = disk w \<and>
         out (feed_update e (Message m) w) =
           out w @ [SendMessage (chat_id m) (TxtWrongFormat [] ALLOWED_DOC_EXTENSIONS) None]"
    by (elim conjE) (rule document_without_extension_rejected; assumption)
  then show "storage (db (feed_update e (Message m) w)) = storage (db w)"
    and "fsm (feed_update e (Message m) w) = fsm w"
    and "disk (feed_update e (Message m) w) = disk w"
    and "out (feed_update e (Message m) w) =
        out w @ [SendMessage (chat_id m) (TxtWrongFormat [] ALLOWED_DOC_EXTENSIONS) None]"
    by simp_all
next
  fix doc :: document assume n: "doc_file_name doc = None"
  then show "original_name doc = ''unknown_document''" by (rule nameless_document)
  with unknown_document_suffix show "path_suffix (original_name doc) = []" by simp
next
  assume "\<forall>r\<in>set (storage (db w)). file_type r = ''document'' \<longrightarrow>
        ends_with_allowed (path_name (original_filename r))"
  then show "\<forall>r\<in>set (storage (db (run evs w))). file_type r = ''document'' \<longrightarrow>
        ends_with_allowed (path_name (original_filename r))"
    by (rule run_document_rows)
next
  have "\<forall>r\<in>set (storage (db initial_world)). file_type r = ''document'' \<longrightarrow>
        ends_with_allowed (path_name (original_filename r))"
    by (simp add: initial_world_def)
  then show "\<forall>r\<in>set (storage (db (run evs initial_world))). file_type r = ''document'' \<longrightarrow>
        ends_with_allowed (path_name (original_filename r))"
    by (rule run_document_rows)
qed

theorem stored_documents_have_allowed_suffix_witness:
  "from_user ex_nameless_message = Some \<lparr>tg_id = 7, tg_username = Some ''ann''\<rparr> \<and>
   users (db ex_library_world) 7 = Some \<lparr>username = Some ''ann'', registered_at = 1, is_authorized = True\<rparr> \<and>
   fsm ex_library_world 7 = awaiting_document \<and>
   command ex_nameless_message = None \<and> button ex_nameless_message = None \<and>
   document ex_nameless_message =
     Some \<lparr>doc_file_id = ''BQAC'', doc_file_unique_id = ''AgAD'', doc_file_name = None\<rparr> \<and>
   path_suffix (original_name \<lparr>doc_file_id = ''BQAC'', doc_file_unique_id = ''AgAD'', doc_file_name = None\<rparr>) = [] \<and>
   storage (db (feed_update calm (Message ex_nameless_message) ex_library_world)) =
     storage (db ex_library_world) \<and>
   out (feed_update calm (Message ex_nameless_message) ex_library_world) =
     [SendMessage 7 (TxtWrongFormat [] ALLOWED_DOC_EXTENSIONS) None] \<and>
   map file_type (storage (db ex_library_world)) = [''photo''] \<and>
   map (\<lambda>r. (file_type r, original_filename r))
     (storage (db (run [(calm, Message ex_document_message)] ex_library_world))) =
     [(''photo'', ''photo_AQAD_20231231_090000.jpg''), (''document'', ''report.pdf'')] \<and>
   ends_with_allowed (path_name ''report.pdf'')"
  using stored_documents_have_allowed_suffix
          [where w = ex_library_world and e = calm and evs = "[(calm, Message ex_document_message)]"]
  by (simp add: step_defs upload_defs eval_defs calm_def ex_library_world_def ex_nameless_message_def
      ex_document_message_def ends_with_allowed_def suffix_to_prefix)

end
